theory Spec2Isabelle
  imports Main "HOL-Library.Word"
begin

section \<open>Values, exceptions and the engine's data\<close>

text \<open>
  A shallow embedding of \<^verbatim>\<open>boa/environment.py\<close>. Python objects that are
  mutated in place are passed explicitly and returned updated; a raised exception is
  the \<open>Inl\<close> branch of a sum (or \<open>Some\<close> in an \<open>error option\<close>), and the state
  reached when it was raised is returned beside it.
\<close>

type_synonym bytes = "8 word list"

text \<open>The exceptions the module raises or lets through. \<open>VMError\<close> and \<open>Halt\<close> are
  the engine's two signals (\<^verbatim>\<open>eth.exceptions\<close>); \<open>ValueError\<close> is what the
  module raises for an invalid argument or a duplicate registration, and
  \<open>AttributeError\<close> for an unknown patch parameter.\<close>

datatype error =
    AttributeError string
  | ValueError string
  | TypeError
  | KeyError
  | IndexError
  | ZeroDivisionError
  | AssertionError
  | StopIteration
  | RecursionError
  | ValidationError
  | VMError string
  | Halt
  | OtherException string

text \<open>The values the patchable parameters hold: integers (block number, timestamp,
  difficulty, chain id, gas limit, code size limit), bytes (coinbase), and a list of
  hashes (prev_hashes).\<close>

datatype pyval = VInt int | VBytes bytes | VHashes "bytes list"

text \<open>\<^verbatim>\<open>vm.state.execution_context\<close>: the attributes that \<^verbatim>\<open>_exc_patchables\<close>
  names. The source's attribute \<^verbatim>\<open>_block_number\<close> is the field \<open>x_block_number\<close>
  here, and so on (an Isabelle name cannot start with an underscore).\<close>

record execution_context =
  x_block_number :: pyval
  x_timestamp :: pyval
  x_coinbase :: pyval
  x_difficulty :: pyval
  x_prev_hashes :: pyval
  x_chain_id :: pyval
  x_gas_limit :: pyval

text \<open>Modelled from the spec: the underlying engine's account state (section 6:
  ``state snapshot()/revert(id), balance/code/nonce get-and-set''). The engine is an
  external library; its account data are balances, nonces, code and storage per
  canonical address, and a journal of checkpoints. \<open>snapshot\<close> records the account data and
  returns the checkpoint's position; \<open>revert\<close> puts the account data of that
  checkpoint back and forgets the checkpoints taken after it, and fails when the
  checkpoint is not in the journal.\<close>

record account_db =
  balances :: "bytes \<Rightarrow> int"
  nonces :: "bytes \<Rightarrow> int"
  codes :: "bytes \<Rightarrow> bytes"
  storage :: "bytes \<Rightarrow> int \<Rightarrow> int"

record vm_state =
  accounts :: account_db
  journal :: "account_db list"
  execution_context :: execution_context

definition snapshot :: "vm_state \<Rightarrow> nat \<times> vm_state" where
  "snapshot st = (length (journal st), st\<lparr>journal := journal st @ [accounts st]\<rparr>)"

definition revert :: "nat \<Rightarrow> vm_state \<Rightarrow> error + vm_state" where
  "revert snapshot_id st =
     (if snapshot_id < length (journal st)
      then Inr (st\<lparr>accounts := journal st ! snapshot_id,
                   journal := take snapshot_id (journal st)\<rparr>)
      else Inl ValidationError)"

definition get_balance :: "vm_state \<Rightarrow> bytes \<Rightarrow> int" where
  "get_balance st a = balances (accounts st) a"

definition set_balance :: "bytes \<Rightarrow> int \<Rightarrow> vm_state \<Rightarrow> vm_state" where
  "set_balance a v st = st\<lparr>accounts := (accounts st)\<lparr>balances := (balances (accounts st))(a := v)\<rparr>\<rparr>"

definition get_nonce :: "vm_state \<Rightarrow> bytes \<Rightarrow> int" where
  "get_nonce st a = nonces (accounts st) a"

definition increment_nonce :: "bytes \<Rightarrow> vm_state \<Rightarrow> vm_state" where
  "increment_nonce a st =
     st\<lparr>accounts := (accounts st)\<lparr>nonces := (nonces (accounts st))(a := nonces (accounts st) a + 1)\<rparr>\<rparr>"

definition get_code :: "vm_state \<Rightarrow> bytes \<Rightarrow> bytes" where
  "get_code st a = codes (accounts st) a"

text \<open>\<^verbatim>\<open>env.vm\<close>: the engine's state, and the module constant
  \<^verbatim>\<open>spurious_dragon.EIP170_CODE_SIZE_LIMIT\<close> that \<^verbatim>\<open>_cmp_patchables\<close> patches
  (a global of the engine's module, kept beside the state it configures).\<close>

record virtual_machine =
  state :: vm_state
  EIP170_CODE_SIZE_LIMIT :: pyval

section \<open>VMPatcher\<close>

definition exc_patchables :: "(string \<times> string) list" where
  "exc_patchables =
     [(''block_number'', ''_block_number''),
      (''timestamp'', ''_timestamp''),
      (''coinbase'', ''_coinbase''),
      (''difficulty'', ''_difficulty''),
      (''prev_hashes'', ''_prev_hashes''),
      (''chain_id'', ''_chain_id''),
      (''gas_limit'', ''_gas_limit'')]"

definition cmp_patchables :: "(string \<times> string) list" where
  "cmp_patchables = [(''code_size_limit'', ''EIP170_CODE_SIZE_LIMIT'')]"

text \<open>The two objects \<^verbatim>\<open>VMPatcher.__init__\<close> pairs the tables with.\<close>

datatype patch_target = ExecutionContextObj | SpuriousDragonModule

definition patchables :: "((string \<times> string) list \<times> patch_target) list" where
  "patchables = [(exc_patchables, ExecutionContextObj), (cmp_patchables, SpuriousDragonModule)]"

text \<open>Python's \<^verbatim>\<open>getattr(p, name)\<close> and \<^verbatim>\<open>setattr(p, name, value)\<close> on the two
  targets. Only the attribute names of the two tables reach them. Reading any other
  attribute raises AttributeError; writing any other attribute would create it and
  changes none of the modelled fields.\<close>

definition target_getattr :: "patch_target \<Rightarrow> string \<Rightarrow> virtual_machine \<Rightarrow> error + pyval" where
  "target_getattr p a v =
     (case p of
        ExecutionContextObj \<Rightarrow>
          (let c = execution_context (state v) in
           if a = ''_block_number'' then Inr (x_block_number c)
           else if a = ''_timestamp'' then Inr (x_timestamp c)
           else if a = ''_coinbase'' then Inr (x_coinbase c)
           else if a = ''_difficulty'' then Inr (x_difficulty c)
           else if a = ''_prev_hashes'' then Inr (x_prev_hashes c)
           else if a = ''_chain_id'' then Inr (x_chain_id c)
           else if a = ''_gas_limit'' then Inr (x_gas_limit c)
           else Inl (AttributeError a))
      | SpuriousDragonModule \<Rightarrow>
          (if a = ''EIP170_CODE_SIZE_LIMIT'' then Inr (EIP170_CODE_SIZE_LIMIT v)
           else Inl (AttributeError a)))"

definition set_execution_context :: "(execution_context \<Rightarrow> execution_context) \<Rightarrow> virtual_machine \<Rightarrow> virtual_machine" where
  "set_execution_context f v =
     v\<lparr>state := (state v)\<lparr>execution_context := f (execution_context (state v))\<rparr>\<rparr>"

definition target_setattr :: "patch_target \<Rightarrow> string \<Rightarrow> pyval \<Rightarrow> virtual_machine \<Rightarrow> virtual_machine" where
  "target_setattr p a x v =
     (case p of
        ExecutionContextObj \<Rightarrow>
          (if a = ''_block_number'' then set_execution_context (\<lambda>c. c\<lparr>x_block_number := x\<rparr>) v
           else if a = ''_timestamp'' then set_execution_context (\<lambda>c. c\<lparr>x_timestamp := x\<rparr>) v
           else if a = ''_coinbase'' then set_execution_context (\<lambda>c. c\<lparr>x_coinbase := x\<rparr>) v
           else if a = ''_difficulty'' then set_execution_context (\<lambda>c. c\<lparr>x_difficulty := x\<rparr>) v
           else if a = ''_prev_hashes'' then set_execution_context (\<lambda>c. c\<lparr>x_prev_hashes := x\<rparr>) v
           else if a = ''_chain_id'' then set_execution_context (\<lambda>c. c\<lparr>x_chain_id := x\<rparr>) v
           else if a = ''_gas_limit'' then set_execution_context (\<lambda>c. c\<lparr>x_gas_limit := x\<rparr>) v
           else v)
      | SpuriousDragonModule \<Rightarrow>
          (if a = ''EIP170_CODE_SIZE_LIMIT'' then v\<lparr>EIP170_CODE_SIZE_LIMIT := x\<rparr> else v))"

text \<open>\<^verbatim>\<open>__getattr__\<close>: the first table that has the name decides; no table having it
  raises \<^verbatim>\<open>AttributeError(attr)\<close>.\<close>

fun getattr_loop :: "((string \<times> string) list \<times> patch_target) list \<Rightarrow> string \<Rightarrow> virtual_machine \<Rightarrow> error + pyval" where
  "getattr_loop [] attr v = Inl (AttributeError attr)"
| "getattr_loop ((s, p) # ps) attr v =
     (case map_of s attr of
        Some a \<Rightarrow> target_getattr p a v
      | None \<Rightarrow> getattr_loop ps attr v)"

definition VMPatcher_getattr :: "string \<Rightarrow> virtual_machine \<Rightarrow> error + pyval" where
  "VMPatcher_getattr attr v = getattr_loop patchables attr v"

text \<open>\<^verbatim>\<open>__setattr__\<close>: the first table that has the name decides and the method
  returns; when the loop ends without a match the method ends too, returning None
  with nothing written and nothing raised.\<close>

fun setattr_loop :: "((string \<times> string) list \<times> patch_target) list \<Rightarrow> string \<Rightarrow> pyval \<Rightarrow> virtual_machine \<Rightarrow> error + virtual_machine" where
  "setattr_loop [] attr x v = Inr v"
| "setattr_loop ((s, p) # ps) attr x v =
     (case map_of s attr of
        Some a \<Rightarrow> Inr (target_setattr p a x v)
      | None \<Rightarrow> setattr_loop ps attr x v)"

definition VMPatcher_setattr :: "string \<Rightarrow> pyval \<Rightarrow> virtual_machine \<Rightarrow> error + virtual_machine" where
  "VMPatcher_setattr attr x v = setattr_loop patchables attr x v"

text \<open>The names \<^verbatim>\<open>anchor\<close> walks: \<^verbatim>\<open>for s, _ in self._patchables: for attr in s\<close>.\<close>

definition patchable_keys :: "string list" where
  "patchable_keys = concat (map (\<lambda>(s, p). map fst s) patchables)"

text \<open>The first loop of \<^verbatim>\<open>VMPatcher.anchor\<close>: \<^verbatim>\<open>snap[attr] = getattr(self, attr)\<close>.
  The dictionary \<open>snap\<close> is an association list, newest binding first.\<close>

fun anchor_save :: "string list \<Rightarrow> (string \<times> pyval) list \<Rightarrow> virtual_machine \<Rightarrow> error + (string \<times> pyval) list" where
  "anchor_save [] snap v = Inr snap"
| "anchor_save (attr # attrs) snap v =
     (case VMPatcher_getattr attr v of
        Inl e \<Rightarrow> Inl e
      | Inr x \<Rightarrow> anchor_save attrs ((attr, x) # snap) v)"

text \<open>The loop of the \<^verbatim>\<open>finally\<close> block: \<^verbatim>\<open>setattr(self, attr, snap[attr])\<close>.\<close>

fun anchor_restore :: "string list \<Rightarrow> (string \<times> pyval) list \<Rightarrow> virtual_machine \<Rightarrow> error option \<times> virtual_machine" where
  "anchor_restore [] snap v = (None, v)"
| "anchor_restore (attr # attrs) snap v =
     (case map_of snap attr of
        None \<Rightarrow> (Some KeyError, v)
      | Some x \<Rightarrow>
          (case VMPatcher_setattr attr x v of
             Inl e \<Rightarrow> (Some e, v)
           | Inr v' \<Rightarrow> anchor_restore attrs snap v'))"

section \<open>Messages, frames and the environment\<close>

text \<open>The engine's \<^verbatim>\<open>Message\<close>, with the two attributes \<^verbatim>\<open>execute_code\<close> sets on
  its \<^verbatim>\<open>FakeMessage\<close> (\<^verbatim>\<open>_fake_codesize\<close>, \<^verbatim>\<open>_start_pc\<close>). The third one,
  \<^verbatim>\<open>_contract\<close>, is an opaque reference that nothing in this module reads back, and
  is left out. \<^verbatim>\<open>code_address\<close> and \<^verbatim>\<open>storage_address\<close> are the engine's
  properties: the address given at construction, else \<^verbatim>\<open>to\<close>.\<close>

record message =
  msg_sender :: bytes
  msg_to :: bytes
  msg_gas :: pyval
  msg_value :: int
  msg_code :: bytes
  msg_data :: bytes
  msg_create_address :: "bytes option"
  msg_code_address :: "bytes option"
  msg_is_static :: bool
  msg_fake_codesize :: "int option"
  msg_start_pc :: int

definition code_address :: "message \<Rightarrow> bytes" where
  "code_address m = (case msg_code_address m of Some a \<Rightarrow> a | None \<Rightarrow> msg_to m)"

definition storage_address :: "message \<Rightarrow> bytes" where
  "storage_address m = (case msg_create_address m of Some a \<Rightarrow> a | None \<Rightarrow> msg_to m)"

record tx_ctx =
  origin :: bytes
  tx_gas_price :: int

text \<open>\<^verbatim>\<open>TracingCodeStream\<close>: the code bytes, the program counter, the trace of
  program counters run, and what CODESIZE reports.\<close>

record code_stream =
  raw_code_bytes :: bytes
  program_counter :: int
  pc_trace :: "int list"
  fake_codesize :: "int option"

definition TracingCodeStream :: "bytes \<Rightarrow> int \<Rightarrow> int option \<Rightarrow> code_stream" where
  "TracingCodeStream code_bytes start_pc fake =
     \<lparr>raw_code_bytes = code_bytes, program_counter = start_pc, pc_trace = [],
      fake_codesize = fake\<rparr>"

text \<open>An entry of the engine's evaluation stack: a pair of a type tag and an integer
  or a byte string.\<close>

datatype stack_item = SInt int | SBytes bytes

text \<open>A frame (the engine's computation object, extended by
  \<^verbatim>\<open>titanoboa_computation\<close>). It holds the state it runs on (\<^verbatim>\<open>computation.state\<close>),
  so an operation on a frame that writes the state returns the frame with the state
  written. \<^verbatim>\<open>is_error\<close> is the engine's property: an error has been recorded.
  The frame-local copies of the precompile and opcode tables are not fields here:
  no function below reads them from a frame.\<close>

datatype computation = Computation
  (c_state: vm_state)
  (c_msg: message)
  (c_tx: tx_ctx)
  (c_code: code_stream)
  (c_stack: "stack_item list")
  (c_memory: bytes)
  (c_error: "error option")
  (c_output: bytes)
  (c_children: "computation list")
  (c_child_pcs: "int list")

definition is_error :: "computation \<Rightarrow> bool" where
  "is_error c = (c_error c \<noteq> None)"

text \<open>An operation on a frame (an opcode's function, a precompile, a registered
  contract's native executor): it returns the frame as it left it, and the exception
  it raised, if any.\<close>

type_synonym frame_op = "computation \<Rightarrow> error option \<times> computation"

text \<open>A registered contract object, seen through the one method this module calls
  on it: \<^verbatim>\<open>contract.ir_executor.exec(computation)\<close>.\<close>

datatype contract = Contract (ir_executor_exec: frame_op)

definition SLOW :: int where "SLOW = 0"
definition FAST :: int where "FAST = 1"
definition LUDICROUS :: int where "LUDICROUS = 2"

text \<open>The attributes of \<^verbatim>\<open>Env\<close>. \<open>eoa\<close> is a reference to an Address instance
  (see the Address section), or None.\<close>

record env =
  vm :: virtual_machine
  gas_price :: "int option"
  address_counter :: int
  aliases :: "bytes \<rightharpoonup> string"
  eoa :: "nat option"
  contracts :: "bytes \<rightharpoonup> contract"
  code_registry :: "bytes \<rightharpoonup> contract"
  sha3_trace :: "bytes \<rightharpoonup> bytes"
  sstore_trace :: "bytes \<rightharpoonup> int set"
  speed :: int
  coverage_enabled :: bool

section \<open>Env.time_travel\<close>

text \<open>\<^verbatim>\<open>self.vm.patch.<attr> += k\<close>: read through \<^verbatim>\<open>__getattr__\<close>, add, write
  through \<^verbatim>\<open>__setattr__\<close>. Adding an integer to a value that is not one raises
  TypeError.\<close>

definition patch_iadd :: "string \<Rightarrow> int \<Rightarrow> virtual_machine \<Rightarrow> error + virtual_machine" where
  "patch_iadd attr k v =
     (case VMPatcher_getattr attr v of
        Inl e \<Rightarrow> Inl e
      | Inr x \<Rightarrow>
          (case x of
             VInt i \<Rightarrow> VMPatcher_setattr attr (VInt (i + k)) v
           | _ \<Rightarrow> Inl TypeError))"

text \<open>Python's \<^verbatim>\<open>//\<close> on integers rounds down, as \<open>div\<close> on \<open>int\<close> does, and
  raises ZeroDivisionError on a zero divisor.\<close>

definition time_travel :: "int option \<Rightarrow> int option \<Rightarrow> int \<Rightarrow> env \<Rightarrow> (error + unit) \<times> env" where
  "time_travel seconds blocks block_delta e =
     (if (seconds = None) = (blocks = None)
      then (Inl (ValueError ''One of seconds or blocks should be set''), e)
      else
        (case (case seconds of
                 Some s \<Rightarrow>
                   (if block_delta = 0 then Inl ZeroDivisionError
                    else Inr (s, s div block_delta))
               | None \<Rightarrow>
                   (case blocks of
                      None \<Rightarrow> Inl AssertionError
                    | Some b \<Rightarrow> Inr (b * block_delta, b))) of
           Inl err \<Rightarrow> (Inl err, e)
         | Inr (secs, blks) \<Rightarrow>
             (case patch_iadd ''timestamp'' secs (vm e) of
                Inl err \<Rightarrow> (Inl err, e)
              | Inr v1 \<Rightarrow>
                  (case patch_iadd ''block_number'' blks v1 of
                     Inl err \<Rightarrow> (Inl err, e\<lparr>vm := v1\<rparr>)
                   | Inr v2 \<Rightarrow> (Inr (), e\<lparr>vm := v2\<rparr>)))))"

section \<open>The anchors\<close>

text \<open>The block under a \<^verbatim>\<open>with\<close> statement: it changes the environment and either
  ends normally (\<open>None\<close>) or raises.\<close>

type_synonym block = "env \<Rightarrow> error option \<times> env"

text \<open>The \<^verbatim>\<open>finally\<close> block of \<^verbatim>\<open>VMPatcher.anchor\<close> on the environment: the saved
  values are written back. An exception raised there replaces the pending one.\<close>

definition patch_unwind :: "(string \<times> pyval) list \<Rightarrow> error option \<times> env \<Rightarrow> error option \<times> env" where
  "patch_unwind snap re =
     (case anchor_restore patchable_keys snap (vm (snd re)) of
        (None, v') \<Rightarrow> (fst re, (snd re)\<lparr>vm := v'\<rparr>)
      | (Some err, v') \<Rightarrow> (Some err, (snd re)\<lparr>vm := v'\<rparr>))"

text \<open>\<^verbatim>\<open>VMPatcher.anchor\<close>: save every patchable value, run the block, restore. An
  exception while saving leaves the generator before the \<^verbatim>\<open>yield\<close>: the block does
  not run.\<close>

definition VMPatcher_anchor :: "block \<Rightarrow> env \<Rightarrow> error option \<times> env" where
  "VMPatcher_anchor body e =
     (case anchor_save patchable_keys [] (vm e) of
        Inl err \<Rightarrow> (Some err, e)
      | Inr snap \<Rightarrow> patch_unwind snap (body e))"

text \<open>The \<^verbatim>\<open>finally\<close> block of \<^verbatim>\<open>Env.anchor\<close>: \<^verbatim>\<open>self.vm.state.revert(snapshot_id)\<close>.\<close>

definition state_unwind :: "nat \<Rightarrow> error option \<times> env \<Rightarrow> error option \<times> env" where
  "state_unwind snapshot_id re =
     (case revert snapshot_id (state (vm (snd re))) of
        Inl err \<Rightarrow> (Some err, snd re)
      | Inr st \<Rightarrow> (fst re, (snd re)\<lparr>vm := (vm (snd re))\<lparr>state := st\<rparr>\<rparr>))"

text \<open>\<^verbatim>\<open>Env.anchor\<close>: take the engine's snapshot, enter the patch anchor around the
  block, revert to the snapshot in the \<^verbatim>\<open>finally\<close> block.\<close>

definition Env_anchor :: "block \<Rightarrow> env \<Rightarrow> error option \<times> env" where
  "Env_anchor body e =
     (let (snapshot_id, st1) = snapshot (state (vm e));
          e1 = e\<lparr>vm := (vm e)\<lparr>state := st1\<rparr>\<rparr>
      in state_unwind snapshot_id (VMPatcher_anchor body e1))"

text \<open>The environment the block of \<^verbatim>\<open>Env.anchor\<close> starts in: the engine's snapshot
  has been taken, nothing else has changed.\<close>

definition at_entry :: "env \<Rightarrow> env" where
  "at_entry e = e\<lparr>vm := (vm e)\<lparr>state := snd (snapshot (state (vm e)))\<rparr>\<rparr>"


section \<open>Address\<close>

text \<open>What \<^verbatim>\<open>Address(...)\<close> is called with: a raw value that can be a dictionary key
  (bytes or a string), or an existing Address instance. Instances live in a store and
  are named by their position in it, so that \<^verbatim>\<open>is\<close> (identity) is equality of
  references.\<close>

datatype raw = RBytes bytes | RStr string

datatype addr_input = Raw raw | Obj nat

record address =
  checksum_address :: string
  canonical_address :: bytes
  normalized_address :: string

text \<open>The two conversions of \<^verbatim>\<open>eth_utils\<close> (an external library): each either
  returns the converted form or raises. They are parameters of the model.\<close>

record codec =
  to_checksum_address :: "raw \<Rightarrow> error + string"
  to_canonical_address :: "raw \<Rightarrow> error + bytes"

text \<open>Python's \<^verbatim>\<open>str.lower\<close> on the ASCII letters a checksummed address has: an
  upper-case letter (codes 65 to 90) becomes the letter 32 above it, which is the same
  code with bit 5 set.\<close>

definition lower_char :: "char \<Rightarrow> char" where
  "lower_char c =
     (let k = (of_char c :: nat) in
      if 65 \<le> k \<and> k \<le> 90
      then (case c of Char b0 b1 b2 b3 b4 b5 b6 b7 \<Rightarrow> Char b0 b1 b2 b3 b4 True b6 b7)
      else c)"

definition lower :: "string \<Rightarrow> string" where
  "lower s = map lower_char s"

text \<open>Modelled from the spec: \<^verbatim>\<open>boa.util.lrudict\<close>, whose source is not part of the
  files at hand. Section 3: ``a bounded least-recently-used store (default capacity
  1024) keyed on the input representation; equal inputs yield the same cached
  instance''; section 4.1: ``cache lookup first; on miss, derive [...] and insert,
  evicting the least-recently-used entry if over capacity''. The entries are kept
  from least to most recently used. A lookup that finds the key makes it the most
  recently used one; a lookup that does not raises KeyError (\<open>None\<close>).\<close>

record ('k, 'v) lrudict =
  lru_n :: nat
  lru_items :: "('k \<times> 'v) list"

definition lru_getitem :: "('k, 'v) lrudict \<Rightarrow> 'k \<Rightarrow> ('v \<times> ('k, 'v) lrudict) option" where
  "lru_getitem d k =
     (case map_of (lru_items d) k of
        None \<Rightarrow> None
      | Some x \<Rightarrow> Some (x, d\<lparr>lru_items := filter (\<lambda>p. fst p \<noteq> k) (lru_items d) @ [(k, x)]\<rparr>))"

definition lru_setitem :: "'k \<Rightarrow> 'v \<Rightarrow> ('k, 'v) lrudict \<Rightarrow> ('k, 'v) lrudict" where
  "lru_setitem k x d =
     (let l = filter (\<lambda>p. fst p \<noteq> k) (lru_items d) @ [(k, x)]
      in d\<lparr>lru_items := (if lru_n d < length l then tl l else l)\<rparr>)"

text \<open>The process-wide tables: \<^verbatim>\<open>Address._cache\<close>, the store of Address instances,
  and \<^verbatim>\<open>_precompiles\<close>. The class Address defines neither \<^verbatim>\<open>__eq__\<close> nor
  \<^verbatim>\<open>__hash__\<close>, so a dictionary keyed by Address instances is keyed by their
  identity: \<open>precompiles\<close> maps references.\<close>

record globals =
  address_cache :: "(raw, nat) lrudict"
  heap :: "address list"
  precompiles :: "nat \<rightharpoonup> frame_op"

text \<open>\<^verbatim>\<open>Address.__new__\<close>. An Address given is returned as it is. Otherwise the cache
  is asked; on KeyError the three forms are computed, the new instance is stored under
  the input, and returned. A conversion that raises leaves the cache as it was.\<close>

definition Address_new :: "codec \<Rightarrow> addr_input \<Rightarrow> globals \<Rightarrow> (error + nat) \<times> globals" where
  "Address_new E address g =
     (case address of
        Obj r \<Rightarrow> (Inr r, g)
      | Raw a \<Rightarrow>
          (case lru_getitem (address_cache g) a of
             Some (r, cache') \<Rightarrow> (Inr r, g\<lparr>address_cache := cache'\<rparr>)
           | None \<Rightarrow>
               (case to_checksum_address E a of
                  Inl err \<Rightarrow> (Inl err, g)
                | Inr cs \<Rightarrow>
                    (case to_canonical_address E a of
                       Inl err \<Rightarrow> (Inl err, g)
                     | Inr cn \<Rightarrow>
                         (let self = \<lparr>checksum_address = cs, canonical_address = cn,
                                      normalized_address = lower cs\<rparr>;
                              r = length (heap g)
                          in (Inr r, g\<lparr>heap := heap g @ [self],
                                       address_cache := lru_setitem a r (address_cache g)\<rparr>))))))"

text \<open>What the cache holds for a raw input.\<close>

definition cached :: "globals \<Rightarrow> raw \<Rightarrow> nat option" where
  "cached g a = map_of (lru_items (address_cache g)) a"

text \<open>\<^verbatim>\<open>str(address)\<close>: the checksummed form of the instance.\<close>

definition Address_str :: "globals \<Rightarrow> nat \<Rightarrow> string" where
  "Address_str g r = checksum_address (heap g ! r)"

section \<open>The precompile registry\<close>

definition register_raw_precompile ::
    "codec \<Rightarrow> addr_input \<Rightarrow> frame_op \<Rightarrow> bool \<Rightarrow> globals \<Rightarrow> (error + unit) \<times> globals" where
  "register_raw_precompile E address fn force g =
     (case Address_new E address g of
        (Inl err, g1) \<Rightarrow> (Inl err, g1)
      | (Inr r, g1) \<Rightarrow>
          (if precompiles g1 r \<noteq> None \<and> \<not> force
           then (Inl (ValueError (''Already registered: '' @ Address_str g1 r)), g1)
           else (Inr (), g1\<lparr>precompiles := (precompiles g1)(r \<mapsto> fn)\<rparr>)))"

definition deregister_raw_precompile ::
    "codec \<Rightarrow> addr_input \<Rightarrow> bool \<Rightarrow> globals \<Rightarrow> (error + unit) \<times> globals" where
  "deregister_raw_precompile E address force g =
     (case Address_new E address g of
        (Inl err, g1) \<Rightarrow> (Inl err, g1)
      | (Inr r, g1) \<Rightarrow>
          (if precompiles g1 r = None \<and> \<not> force
           then (Inl (ValueError ''Not registered: {address}''), g1)
           else (Inr (), g1\<lparr>precompiles := (precompiles g1)(r := None)\<rparr>)))"

section \<open>The tracing hooks\<close>

text \<open>Modelled from the spec: \<^verbatim>\<open>boa.vm.utils.to_int\<close> and \<^verbatim>\<open>to_bytes\<close>, whose source
  is not part of the files at hand. Section 9 names them as the two typed accessors of
  a stack entry, ``read-stack-as-integer'' and ``read-stack-as-bytes'': an integer is
  read as it is and a byte string as the big-endian number it writes; as bytes, an
  entry is the 32-byte word of the machine, big-endian, a shorter byte string padded
  with zeros on the left.\<close>

definition to_int :: "stack_item \<Rightarrow> int" where
  "to_int x = (case x of SInt i \<Rightarrow> i | SBytes b \<Rightarrow> foldl (\<lambda>acc w. acc * 256 + uint w) 0 b)"


text \<open>\<^verbatim>\<open>_stackitem_to_int\<close> and \<^verbatim>\<open>_stackitem_to_bytes\<close>: the value of the pair the
  engine keeps on its stack, converted.\<close>

definition stackitem_to_int :: "stack_item \<Rightarrow> int" where
  "stackitem_to_int x = to_int x"


text \<open>Python's \<^verbatim>\<open>values[-2:]\<close>: the last two entries, or all of them when there are
  fewer. The top of the stack is the last entry.\<close>

definition last_two :: "'a list \<Rightarrow> 'a list" where
  "last_two xs = drop (length xs - 2) xs"



text \<open>\<^verbatim>\<open>_trace_sstore\<close>: \<^verbatim>\<open>setdefault(account, set())\<close>, then \<^verbatim>\<open>add(slot)\<close>.\<close>

definition trace_sstore :: "bytes \<Rightarrow> int \<Rightarrow> env \<Rightarrow> env" where
  "trace_sstore account slot e =
     (let touched = (case sstore_trace e account of None \<Rightarrow> {} | Some S \<Rightarrow> S)
      in e\<lparr>sstore_trace := (sstore_trace e)(account \<mapsto> insert slot touched)\<rparr>)"


text \<open>\<^verbatim>\<open>SstoreTracer.__call__\<close>, around the engine's operation \<open>sstore\<close>: the touched
  slot is recorded first, the operation runs after that, whatever the value is.\<close>

definition SstoreTracer_call ::
    "frame_op \<Rightarrow> computation \<Rightarrow> env \<Rightarrow> error option \<times> computation \<times> env" where
  "SstoreTracer_call sstore c e =
     (case map stackitem_to_int (last_two (c_stack c)) of
        [val, slot] \<Rightarrow>
          (let account = storage_address (c_msg c);
               e1 = trace_sstore account slot e;
               (r, c') = sstore c
           in (r, c', e1))
      | _ \<Rightarrow> (Some (ValueError ''not enough values to unpack''), c, e))"

text \<open>The hook run once for each storage write of an execution: \<open>cs\<close> are the frames
  as they were when each SSTORE was reached, in the order of execution. The slot a
  frame is about to write is the top of its stack, the value the entry below.\<close>

fun run_sstores :: "frame_op \<Rightarrow> computation list \<Rightarrow> env \<Rightarrow> env" where
  "run_sstores sstore [] e = e"
| "run_sstores sstore (c # cs) e =
     run_sstores sstore cs (snd (snd (SstoreTracer_call sstore c e)))"

definition written_slot :: "computation \<Rightarrow> int" where
  "written_slot c = stackitem_to_int (last (c_stack c))"


text \<open>The slots an account has in the sstore trace (none when it has no entry).\<close>

definition touched :: "env \<Rightarrow> bytes \<Rightarrow> int set" where
  "touched e a = (case sstore_trace e a of None \<Rightarrow> {} | Some S \<Rightarrow> S)"



section \<open>The execution frame extension\<close>

text \<open>The engine's side of the calls below, as parameters: the interpreter
  (\<^verbatim>\<open>super().apply_computation\<close>), the two entry points that
  \<^verbatim>\<open>vm.state.computation_class\<close> offers to \<^verbatim>\<open>deploy_code\<close> and
  \<^verbatim>\<open>execute_code\<close>, and the address derivation. The entry points run on the
  environment and the process-wide tables and may change both.\<close>

type_synonym world = "env \<times> globals"

record engine =
  super_apply_computation :: "vm_state \<Rightarrow> message \<Rightarrow> tx_ctx \<Rightarrow> error + computation"
  apply_create_message :: "world \<Rightarrow> message \<Rightarrow> tx_ctx \<Rightarrow> (error + computation) \<times> world"
  apply_message :: "world \<Rightarrow> message \<Rightarrow> tx_ctx \<Rightarrow> (error + computation) \<times> world"
  generate_contract_address :: "bytes \<Rightarrow> int \<Rightarrow> bytes"

text \<open>\<^verbatim>\<open>titanoboa_computation.__init__\<close>: a new frame on the state for the message,
  with the tracing code stream over the message's code, starting at the message's
  \<^verbatim>\<open>_start_pc\<close> and reporting its \<^verbatim>\<open>_fake_codesize\<close>; nothing on the stack, no
  error, no child.\<close>

definition titanoboa_computation :: "vm_state \<Rightarrow> message \<Rightarrow> tx_ctx \<Rightarrow> computation" where
  "titanoboa_computation st m t =
     Computation st m t (TracingCodeStream (msg_code m) (msg_start_pc m) (msg_fake_codesize m))
       [] [] None [] [] []"

definition set_error :: "error \<Rightarrow> computation \<Rightarrow> computation" where
  "set_error err c =
     Computation (c_state c) (c_msg c) (c_tx c) (c_code c) (c_stack c) (c_memory c) (Some err)
       (c_output c) (c_children c) (c_child_pcs c)"

text \<open>Leaving \<^verbatim>\<open>with cls(state, msg, tx_ctx) as computation:\<close>. The engine's frame is
  the context manager: its exit records a VMError raised in the block on the frame and
  suppresses it; any other exception propagates; a block that ends normally leaves
  the frame as it is.\<close>

definition with_computation_exit :: "error option \<times> computation \<Rightarrow> error + computation" where
  "with_computation_exit rc =
     (case fst rc of
        None \<Rightarrow> Inr (snd rc)
      | Some (VMError x) \<Rightarrow> Inr (set_error (VMError x) (snd rc))
      | Some err \<Rightarrow> Inl err)"

text \<open>\<^verbatim>\<open>try: contract.ir_executor.exec(computation) except Halt: pass\<close>.\<close>

definition exec_catching_Halt :: "contract \<Rightarrow> computation \<Rightarrow> error option \<times> computation" where
  "exec_catching_Halt k c =
     (case ir_executor_exec k c of
        (Some Halt, c') \<Rightarrow> (None, c')
      | rc \<Rightarrow> rc)"

definition lookup_contract_fast :: "env \<Rightarrow> bytes \<Rightarrow> contract option" where
  "lookup_contract_fast e address = contracts e address"

text \<open>\<^verbatim>\<open>titanoboa_computation.apply_computation\<close>. \<^verbatim>\<open>if addr\<close> is Python's truth of
  a byte string: it is not empty.\<close>

definition apply_computation ::
    "engine \<Rightarrow> env \<Rightarrow> vm_state \<Rightarrow> message \<Rightarrow> tx_ctx \<Rightarrow> error + computation" where
  "apply_computation G e st m t =
     (let addr = code_address m;
          contract = (if addr \<noteq> [] then lookup_contract_fast e addr else None)
      in if contract = None \<or> speed e = SLOW
         then super_apply_computation G st m t
         else
           (case contract of
              None \<Rightarrow> super_apply_computation G st m t
            | Some k \<Rightarrow>
                with_computation_exit (exec_catching_Halt k (titanoboa_computation st m t))))"

section \<open>Env.deploy_code and Env.execute_code\<close>

text \<open>The instance a reference names. A reference is the position of an instance
  that has been constructed: Python has no dangling reference.\<close>

definition deref :: "globals \<Rightarrow> nat \<Rightarrow> address" where
  "deref g r = heap g ! r"

definition get_gas_price :: "env \<Rightarrow> int" where
  "get_gas_price e = (case gas_price e of None \<Rightarrow> 0 | Some p \<Rightarrow> p)"

text \<open>\<^verbatim>\<open>_get_sender\<close>: the default sender is \<^verbatim>\<open>self.eoa\<close>; without an eoa the method
  raises, whether a sender was given or not.\<close>

definition get_sender :: "codec \<Rightarrow> addr_input option \<Rightarrow> world \<Rightarrow> (error + bytes) \<times> world" where
  "get_sender E sender w =
     (case eoa (fst w) of
        None \<Rightarrow> (Inl (ValueError ''eoa not defined!''), w)
      | Some eoa_ref \<Rightarrow>
          (case Address_new E (case sender of None \<Rightarrow> Obj eoa_ref | Some s \<Rightarrow> s) (snd w) of
             (Inl err, g1) \<Rightarrow> (Inl err, (fst w, g1))
           | (Inr r, g1) \<Rightarrow> (Inr (canonical_address (deref g1 r)), (fst w, g1))))"

text \<open>The first half of \<^verbatim>\<open>deploy_code\<close>, up to the message: the gas, the sender, and
  the target address, which is the override address when one is given, and otherwise is
  derived from the sender and its nonce, which is read and incremented there.\<close>

definition deploy_target ::
    "engine \<Rightarrow> codec \<Rightarrow> bytes \<Rightarrow> addr_input option \<Rightarrow> world \<Rightarrow> (error + bytes) \<times> world" where
  "deploy_target G E sender override_address w =
     (case override_address of
        Some ov \<Rightarrow>
          (case Address_new E ov (snd w) of
             (Inl err, g1) \<Rightarrow> (Inl err, (fst w, g1))
           | (Inr r, g1) \<Rightarrow> (Inr (canonical_address (deref g1 r)), (fst w, g1)))
      | None \<Rightarrow>
          (let e = fst w;
               nonce = get_nonce (state (vm e)) sender;
               e1 = e\<lparr>vm := (vm e)\<lparr>state := increment_nonce sender (state (vm e))\<rparr>\<rparr>
           in (Inr (generate_contract_address G sender nonce), (e1, snd w))))"

definition create_message :: "bytes \<Rightarrow> pyval \<Rightarrow> int \<Rightarrow> bytes \<Rightarrow> bytes \<Rightarrow> message" where
  "create_message sender gas val bytecode target_address =
     \<lparr>msg_sender = sender, msg_to = [], msg_gas = gas, msg_value = val, msg_code = bytecode,
      msg_data = [], msg_create_address = Some target_address, msg_code_address = None,
      msg_is_static = False, msg_fake_codesize = None, msg_start_pc = 0\<rparr>"

text \<open>\<^verbatim>\<open>Env.deploy_code\<close>. The parameter \<^verbatim>\<open>start_pc\<close> is accepted and not used, as
  in the source.\<close>

definition deploy_code ::
    "engine \<Rightarrow> codec \<Rightarrow> addr_input option \<Rightarrow> int option \<Rightarrow> int \<Rightarrow> bytes \<Rightarrow> int \<Rightarrow>
     addr_input option \<Rightarrow> world \<Rightarrow> (error + bytes \<times> bytes) \<times> world" where
  "deploy_code G E sender gas val bytecode start_pc override_address w =
     (let gas' = (case gas of
                    None \<Rightarrow> x_gas_limit (execution_context (state (vm (fst w))))
                  | Some k \<Rightarrow> VInt k)
      in case get_sender E sender w of
           (Inl err, w1) \<Rightarrow> (Inl err, w1)
         | (Inr sender', w1) \<Rightarrow>
             (case deploy_target G E sender' override_address w1 of
                (Inl err, w2) \<Rightarrow> (Inl err, w2)
              | (Inr target_address, w2) \<Rightarrow>
                  (let msg = create_message sender' gas' val bytecode target_address;
                       tx = \<lparr>origin = sender', tx_gas_price = get_gas_price (fst w2)\<rparr>
                   in case apply_create_message G w2 msg tx of
                        (Inl err, w3) \<Rightarrow> (Inl err, w3)
                      | (Inr c, w3) \<Rightarrow>
                          (case c_error c of
                             Some err \<Rightarrow> (Inl err, w3)
                           | None \<Rightarrow> (Inr (target_address, c_output c), w3)))))"

text \<open>\<^verbatim>\<open>_hook_trace_computation\<close>. The loop over the trace does nothing. The loop
  over the children looks the child's contract up and calls the method again on
  \<^verbatim>\<open>computation\<close>, the frame it was called with. The first argument counts the
  Python stack frames still available: with none left the call raises
  RecursionError.\<close>

primrec hook_trace_computation :: "nat \<Rightarrow> env \<Rightarrow> computation \<Rightarrow> error option" where
  "hook_trace_computation 0 e computation = Some RecursionError"
| "hook_trace_computation (Suc depth) e computation =
     foldl (\<lambda>r child.
              case r of
                Some err \<Rightarrow> Some err
              | None \<Rightarrow>
                  (let child_contract = lookup_contract_fast e (code_address (c_msg child))
                   in hook_trace_computation depth e computation))
       None (c_children computation)"

definition call_message ::
    "bytes \<Rightarrow> bytes \<Rightarrow> pyval \<Rightarrow> int \<Rightarrow> bytes \<Rightarrow> bytes \<Rightarrow> bool \<Rightarrow> int option \<Rightarrow> int \<Rightarrow> message" where
  "call_message sender to gas val bytecode data is_static fake start_pc =
     \<lparr>msg_sender = sender, msg_to = to, msg_gas = gas, msg_value = val, msg_code = bytecode,
      msg_data = data, msg_create_address = None, msg_code_address = None,
      msg_is_static = is_static, msg_fake_codesize = fake, msg_start_pc = start_pc\<rparr>"

text \<open>\<^verbatim>\<open>Env.execute_code\<close>. \<open>depth\<close> is the number of Python stack frames available
  to the call. The parameter \<^verbatim>\<open>contract\<close> is an opaque reference that is only
  handed on (to the message and to the hook, which does not read it), and is left
  out.\<close>

definition execute_code ::
    "engine \<Rightarrow> codec \<Rightarrow> nat \<Rightarrow> addr_input \<Rightarrow> addr_input option \<Rightarrow> int option \<Rightarrow> int \<Rightarrow>
     bytes \<Rightarrow> bytes option \<Rightarrow> bool \<Rightarrow> int \<Rightarrow> int option \<Rightarrow> world \<Rightarrow>
     (error + computation) \<times> world" where
  "execute_code G E depth to_address sender gas val data override_bytecode is_modifying
       start_pc fake w =
     (let gas' = (case gas of
                    None \<Rightarrow> x_gas_limit (execution_context (state (vm (fst w))))
                  | Some k \<Rightarrow> VInt k)
      in case get_sender E sender w of
           (Inl err, w1) \<Rightarrow> (Inl err, w1)
         | (Inr sender', w1) \<Rightarrow>
             (case Address_new E to_address (snd w1) of
                (Inl err, g2) \<Rightarrow> (Inl err, (fst w1, g2))
              | (Inr r, g2) \<Rightarrow>
                  (let to = canonical_address (deref g2 r);
                       bytecode = (case override_bytecode of
                                     None \<Rightarrow> get_code (state (vm (fst w1))) to
                                   | Some b \<Rightarrow> b);
                       is_static = (\<not> is_modifying);
                       msg = call_message sender' to gas' val bytecode data is_static fake start_pc;
                       tx = \<lparr>origin = sender', tx_gas_price = get_gas_price (fst w1)\<rparr>
                   in case apply_message G (fst w1, g2) msg tx of
                        (Inl err, w3) \<Rightarrow> (Inl err, w3)
                      | (Inr ret, w3) \<Rightarrow>
                          (if coverage_enabled (fst w3)
                           then (case hook_trace_computation depth (fst w3) ret of
                                   Some err \<Rightarrow> (Inl err, w3)
                                 | None \<Rightarrow> (Inr ret, w3))
                           else (Inr ret, w3)))))"

section \<open>The contract registry\<close>

text \<open>\<^verbatim>\<open>Env.register_contract\<close>: the contract is bound under the canonical form of
  the address, and under the code the state holds at that address.\<close>

definition register_contract ::
    "codec \<Rightarrow> addr_input \<Rightarrow> contract \<Rightarrow> world \<Rightarrow> (error + unit) \<times> world" where
  "register_contract E address obj w =
     (case Address_new E address (snd w) of
        (Inl err, g1) \<Rightarrow> (Inl err, (fst w, g1))
      | (Inr r, g1) \<Rightarrow>
          (let addr = canonical_address (deref g1 r);
               e1 = (fst w)\<lparr>contracts := (contracts (fst w))(addr \<mapsto> obj)\<rparr>;
               bytecode = get_code (state (vm e1)) addr
           in (Inr (), (e1\<lparr>code_registry := (code_registry e1)(bytecode \<mapsto> obj)\<rparr>, g1))))"

text \<open>What holds of the conversions and of the tables in every run: a canonical form
  is 20 bytes long, every instance in the store has a canonical form of that length,
  and the cache refers to instances in the store.\<close>

definition codec_ok :: "codec \<Rightarrow> bool" where
  "codec_ok E = (\<forall>a b. to_canonical_address E a = Inr b \<longrightarrow> length b = 20)"

definition globals_ok :: "globals \<Rightarrow> bool" where
  "globals_ok g =
     ((\<forall>x \<in> set (heap g). length (canonical_address x) = 20) \<and>
      (\<forall>p \<in> set (lru_items (address_cache g)). snd p < length (heap g)))"

text \<open>An argument of \<^verbatim>\<open>Address(...)\<close> that makes sense in the tables: an instance
  given is one of the store.\<close>

definition input_ok :: "globals \<Rightarrow> addr_input \<Rightarrow> bool" where
  "input_ok g address = (case address of Obj r \<Rightarrow> r < length (heap g) | Raw a \<Rightarrow> True)"

section \<open>A concrete environment\<close>

text \<open>An environment over a fresh chain, used to run the definitions on concrete
  inputs: no account has a balance, a nonce or code, the journal is empty, and the
  block parameters are those of a first block.\<close>

definition genesis_context :: execution_context where
  "genesis_context =
     \<lparr>x_block_number = VInt 1, x_timestamp = VInt 1000, x_coinbase = VBytes (replicate 20 0),
      x_difficulty = VInt 0, x_prev_hashes = VHashes [], x_chain_id = VInt 1,
      x_gas_limit = VInt 100000000\<rparr>"

definition genesis_state :: vm_state where
  "genesis_state =
     \<lparr>accounts = \<lparr>balances = (\<lambda>a. 0), nonces = (\<lambda>a. 0), codes = (\<lambda>a. []),
                  storage = (\<lambda>a k. 0)\<rparr>,
      journal = [], execution_context = genesis_context\<rparr>"

definition example_env :: env where
  "example_env =
     \<lparr>vm = \<lparr>state = genesis_state, EIP170_CODE_SIZE_LIMIT = VInt 24576\<rparr>,
      gas_price = None, address_counter = 101, aliases = Map.empty, eoa = Some 0,
      contracts = Map.empty, code_registry = Map.empty, sha3_trace = Map.empty,
      sstore_trace = Map.empty, speed = SLOW, coverage_enabled = False\<rparr>"

text \<open>A block that sets the balance of the account \<open>[1]\<close> to 5 and the patched
  timestamp to 999, and then ends as \<open>r\<close> says: normally, or by raising.\<close>

definition example_block :: "error option \<Rightarrow> block" where
  "example_block r e =
     (case VMPatcher_setattr ''timestamp'' (VInt 999)
             ((vm e)\<lparr>state := set_balance [1] 5 (state (vm e))\<rparr>) of
        Inl err \<Rightarrow> (Some err, e)
      | Inr v \<Rightarrow> (r, e\<lparr>vm := v\<rparr>))"

text \<open>A stand-in for the two conversions, used only to run the definitions: it
  accepts a 20-byte value, whose canonical form is the value itself, and refuses
  everything else. Its text form is \<open>0x\<close> and the bytes in upper-case hexadecimal
  (the real checksummed form mixes the cases by a hash of the address).\<close>

definition hex_byte :: "8 word \<Rightarrow> string" where
  "hex_byte w =
     [''0123456789ABCDEF'' ! (unat w div 16), ''0123456789ABCDEF'' ! (unat w mod 16)]"

definition example_codec :: codec where
  "example_codec =
     \<lparr>to_checksum_address = (\<lambda>a. case a of
          RBytes b \<Rightarrow> if length b = 20 then Inr (''0x'' @ concat (map hex_byte b))
                      else Inl (ValueError ''not an address'')
        | RStr s \<Rightarrow> Inl (ValueError ''not an address'')),
      to_canonical_address = (\<lambda>a. case a of
          RBytes b \<Rightarrow> if length b = 20 then Inr b else Inl (ValueError ''not an address'')
        | RStr s \<Rightarrow> Inl (ValueError ''not an address''))\<rparr>"

text \<open>The tables of a fresh process: an empty cache of capacity 1024
  (\<^verbatim>\<open>_cache = lrudict(1024)\<close>), no instance, no precompile.\<close>

definition fresh_globals :: globals where
  "fresh_globals =
     \<lparr>address_cache = \<lparr>lru_n = 1024, lru_items = []\<rparr>, heap = [], precompiles = Map.empty\<rparr>"

definition CONSOLE_ADDRESS :: bytes where
  "CONSOLE_ADDRESS =
     [0x00, 0x00, 0x00, 0x00, 0x00, 0x00, 0x00, 0x00, 0x00, 0x63,
      0x6F, 0x6E, 0x73, 0x6F, 0x6C, 0x65, 0x2E, 0x6C, 0x6F, 0x67]"

text \<open>Two handlers that can be told apart: one returns the frame, the other raises.\<close>

definition handler_a :: frame_op where
  "handler_a c = (None, c)"

definition handler_b :: frame_op where
  "handler_b c = (Some Halt, c)"

text \<open>The tables after \<^verbatim>\<open>Address(CONSOLE_ADDRESS)\<close> has been constructed once, and
  after \<open>handler_a\<close> has been registered at that address.\<close>

definition globals_one_address :: globals where
  "globals_one_address = \<lparr>address_cache = \<lparr>lru_n = 1024, lru_items = [(RBytes CONSOLE_ADDRESS, 0)]\<rparr>,
       heap = [\<lparr>checksum_address = ''0x000000000000000000636F6E736F6C652E6C6F67'',
                canonical_address = CONSOLE_ADDRESS,
                normalized_address = ''0x000000000000000000636f6e736f6c652e6c6f67''\<rparr>],
       precompiles = Map.empty\<rparr>"

definition globals_registered :: globals where
  "globals_registered = globals_one_address\<lparr>precompiles := [0 \<mapsto> handler_a]\<rparr>"


text \<open>Frames to run the hooks on: a message to the account \<open>CONSOLE_ADDRESS\<close>, and a
  frame over the fresh state with a given stack and memory.\<close>

definition example_msg :: message where
  "example_msg =
     \<lparr>msg_sender = replicate 20 1, msg_to = CONSOLE_ADDRESS, msg_gas = VInt 100000,
      msg_value = 0, msg_code = [], msg_data = [], msg_create_address = None,
      msg_code_address = None, msg_is_static = False, msg_fake_codesize = None,
      msg_start_pc = 0\<rparr>"

definition example_frame :: "stack_item list \<Rightarrow> bytes \<Rightarrow> computation" where
  "example_frame stk mem =
     Computation genesis_state example_msg \<lparr>origin = replicate 20 1, tx_gas_price = 0\<rparr>
       (TracingCodeStream [] 0 None) stk mem None [] [] []"






text \<open>A frame as the engine returns it for a call that made one nested call and then
  reverted: the failure flag is set and there is one child. And a stand-in engine that
  answers every submission with a given frame and changes nothing; its address
  derivation adds the nonce to each byte of the sender.\<close>

definition reverted_frame :: computation where
  "reverted_frame =
     Computation genesis_state example_msg \<lparr>origin = replicate 20 1, tx_gas_price = 0\<rparr>
       (TracingCodeStream [] 0 None) [] [] (Some (VMError ''Revert'')) []
       [example_frame [] []] []"

definition constant_engine :: "computation \<Rightarrow> engine" where
  "constant_engine c =
     \<lparr>super_apply_computation = (\<lambda>st m t. Inr c),
      apply_create_message = (\<lambda>w m t. (Inr c, w)),
      apply_message = (\<lambda>w m t. (Inr c, w)),
      generate_contract_address = (\<lambda>s k. map (\<lambda>b. b + word_of_int k) s)\<rparr>"

text \<open>An environment whose default sender is the instance 0 of
  \<open>globals_one_address\<close>, and the same with coverage enabled.\<close>

definition example_world :: world where
  "example_world = (example_env, globals_one_address)"

definition coverage_world :: world where
  "coverage_world = (example_env\<lparr>coverage_enabled := True\<rparr>, globals_one_address)"

text \<open>A stand-in for the two conversions that, like the real ones, also accepts an
  address written as text: \<open>0x\<close> and 40 hexadecimal digits in either case. Both
  spellings of an address have the same canonical form and the same text form.\<close>

definition hex_digit :: "char \<Rightarrow> nat option" where
  "hex_digit c =
     (let k = (of_char c :: nat) in
      if 48 \<le> k \<and> k \<le> 57 then Some (k - 48)
      else if 97 \<le> k \<and> k \<le> 102 then Some (k - 87)
      else if 65 \<le> k \<and> k \<le> 70 then Some (k - 55)
      else None)"

fun decode_hex :: "string \<Rightarrow> bytes option" where
  "decode_hex [] = Some []"
| "decode_hex [c] = None"
| "decode_hex (c1 # c2 # rest) =
     (case (hex_digit c1, hex_digit c2, decode_hex rest) of
        (Some h, Some l, Some bs) \<Rightarrow> Some (of_nat (16 * h + l) # bs)
      | _ \<Rightarrow> None)"

definition address_bytes :: "raw \<Rightarrow> bytes option" where
  "address_bytes a =
     (case a of
        RBytes b \<Rightarrow> if length b = 20 then Some b else None
      | RStr s \<Rightarrow>
          (case s of
             c0 # c1 # rest \<Rightarrow>
               (if c0 = CHR ''0'' \<and> c1 = CHR ''x''
                then (case decode_hex rest of
                        Some b \<Rightarrow> if length b = 20 then Some b else None
                      | None \<Rightarrow> None)
                else None)
           | _ \<Rightarrow> None))"

definition text_codec :: codec where
  "text_codec =
     \<lparr>to_checksum_address = (\<lambda>a. case address_bytes a of
          Some b \<Rightarrow> Inr (''0x'' @ concat (map hex_byte b))
        | None \<Rightarrow> Inl (ValueError ''not an address'')),
      to_canonical_address = (\<lambda>a. case address_bytes a of
          Some b \<Rightarrow> Inr b
        | None \<Rightarrow> Inl (ValueError ''not an address''))\<rparr>"

definition CONSOLE_TEXT :: string where
  "CONSOLE_TEXT = ''0x000000000000000000636f6e736f6c652e6c6f67''"

text \<open>Native executors that each write the output \<open>[7]\<close> on the frame and then end in
  one of the four ways an executor can end: returning, raising Halt, raising a
  VMError, raising anything else; and the environment with such an executor's
  contract registered at \<open>CONSOLE_ADDRESS\<close>, in fast mode.\<close>

definition with_output :: "bytes \<Rightarrow> computation \<Rightarrow> computation" where
  "with_output out c =
     Computation (c_state c) (c_msg c) (c_tx c) (c_code c) (c_stack c) (c_memory c) (c_error c)
       out (c_children c) (c_child_pcs c)"

definition native_return :: frame_op where
  "native_return c = (None, with_output [7] c)"

definition native_halt :: frame_op where
  "native_halt c = (Some Halt, with_output [7] c)"

definition native_revert :: frame_op where
  "native_revert c = (Some (VMError ''Revert''), with_output [7] c)"

definition native_crash :: frame_op where
  "native_crash c = (Some (OtherException ''crash''), with_output [7] c)"

definition native_env :: "frame_op \<Rightarrow> env" where
  "native_env f = example_env\<lparr>contracts := [CONSOLE_ADDRESS \<mapsto> Contract f], speed := FAST\<rparr>"

text \<open>A stand-in engine whose creation does what the engine's does to nonces: it
  increments the nonce of the account being created (the message's storage address)
  and returns a successful frame on the state so written. Its address derivation adds
  the nonce and one to each byte of the sender.\<close>

definition creating_engine :: engine where
  "creating_engine =
     \<lparr>super_apply_computation = (\<lambda>st m t. Inr (titanoboa_computation st m t)),
      apply_create_message = (\<lambda>w m t.
         (let st = increment_nonce (storage_address m) (state (vm (fst w)))
          in (Inr (titanoboa_computation st m t),
              ((fst w)\<lparr>vm := (vm (fst w))\<lparr>state := st\<rparr>\<rparr>, snd w)))),
      apply_message = (\<lambda>w m t. (Inr (titanoboa_computation (state (vm (fst w))) m t), w)),
      generate_contract_address = (\<lambda>s k. map (\<lambda>b. b + word_of_int k + 1) s)\<rparr>"

definition OTHER_ADDRESS :: bytes where
  "OTHER_ADDRESS =
     [0x02, 0x02, 0x02, 0x02, 0x02, 0x02, 0x02, 0x02, 0x02, 0x02,
      0x02, 0x02, 0x02, 0x02, 0x02, 0x02, 0x02, 0x02, 0x02, 0x02]"

text \<open>The tables after the bound address has been given a second time, as text: a
  second instance with the same forms.\<close>

definition globals_second_spelling :: globals where
  "globals_second_spelling =
     \<lparr>address_cache = \<lparr>lru_n = 1024,
                        lru_items = [(RBytes CONSOLE_ADDRESS, 0), (RStr CONSOLE_TEXT, 1)]\<rparr>,
      heap = [\<lparr>checksum_address = ''0x000000000000000000636F6E736F6C652E6C6F67'',
               canonical_address = CONSOLE_ADDRESS,
               normalized_address = ''0x000000000000000000636f6e736f6c652e6c6f67''\<rparr>,
              \<lparr>checksum_address = ''0x000000000000000000636F6E736F6C652E6C6F67'',
               canonical_address = CONSOLE_ADDRESS,
               normalized_address = ''0x000000000000000000636f6e736f6c652e6c6f67''\<rparr>],
      precompiles = [0 \<mapsto> handler_a]\<rparr>"

text \<open>The world after \<open>OTHER_ADDRESS\<close> has been made an Address as well.\<close>

definition world_other_address :: world where
  "world_other_address =
     (example_env,
      \<lparr>address_cache = \<lparr>lru_n = 1024,
                         lru_items = [(RBytes CONSOLE_ADDRESS, 0), (RBytes OTHER_ADDRESS, 1)]\<rparr>,
       heap = [\<lparr>checksum_address = ''0x000000000000000000636F6E736F6C652E6C6F67'',
                canonical_address = CONSOLE_ADDRESS,
                normalized_address = ''0x000000000000000000636f6e736f6c652e6c6f67''\<rparr>,
               \<lparr>checksum_address = ''0x0202020202020202020202020202020202020202'',
                canonical_address = OTHER_ADDRESS,
                normalized_address = ''0x0202020202020202020202020202020202020202''\<rparr>],
       precompiles = Map.empty\<rparr>)"

text \<open>A transaction context, and the new frame \<^verbatim>\<open>apply_computation\<close> makes for
  \<open>example_msg\<close> on the fresh state.\<close>

definition example_tx :: tx_ctx where
  "example_tx = \<lparr>origin = replicate 20 1, tx_gas_price = 0\<rparr>"

definition new_frame :: computation where
  "new_frame = titanoboa_computation genesis_state example_msg example_tx"


section \<open>VMPatcher: unknown names\<close>

lemma map_of_exc_None:
  "attr \<notin> set patchable_keys \<Longrightarrow> map_of exc_patchables attr = None \<and> map_of cmp_patchables attr = None"
  by (simp add: patchable_keys_def patchables_def exc_patchables_def cmp_patchables_def)

lemma getattr_unknown:
  "attr \<notin> set patchable_keys \<Longrightarrow> VMPatcher_getattr attr v = Inl (AttributeError attr)"
  by (simp add: VMPatcher_getattr_def patchables_def map_of_exc_None)

lemma setattr_unknown:
  "attr \<notin> set patchable_keys \<Longrightarrow> VMPatcher_setattr attr x v = Inr v"
  by (simp add: VMPatcher_setattr_def patchables_def map_of_exc_None)

lemma set_patchable_keys: "set patchable_keys = {''block_number'', ''timestamp'', ''coinbase'', ''difficulty'',
   ''prev_hashes'', ''chain_id'', ''gas_limit'', ''code_size_limit''}"
  by (simp add: patchable_keys_def patchables_def exc_patchables_def cmp_patchables_def)


text \<open>
  C5. For a name outside the recognised set, reading the parameter raises
  \<^verbatim>\<open>AttributeError(name)\<close>. Writing it does not: \<^verbatim>\<open>__setattr__\<close> falls off the end
  of its loop and returns normally, and the machine is unchanged. So the read fails as
  the specification says, and the write is silently ignored.
\<close>

theorem VMPatcher_unknown_name:
  assumes "attr \<notin> {''block_number'', ''timestamp'', ''coinbase'', ''difficulty'',
                    ''prev_hashes'', ''chain_id'', ''gas_limit'', ''code_size_limit''}"
  shows "VMPatcher_getattr attr v = Inl (AttributeError attr) \<and>
         VMPatcher_setattr attr x v = Inr v"
proof -
  from assms have "attr \<notin> set patchable_keys"
    unfolding set_patchable_keys .
  then show ?thesis
    by (simp add: getattr_unknown setattr_unknown)
qed

theorem VMPatcher_unknown_name_witness:
  "''block_numbr'' \<notin> {''block_number'', ''timestamp'', ''coinbase'', ''difficulty'',
                    ''prev_hashes'', ''chain_id'', ''gas_limit'', ''code_size_limit''} \<and>
   VMPatcher_getattr ''block_numbr'' (vm example_env) = Inl (AttributeError ''block_numbr'') \<and>
   VMPatcher_setattr ''block_numbr'' (VInt 7) (vm example_env) = Inr (vm example_env)"
proof -
  have h: "''block_numbr'' \<notin> {''block_number'', ''timestamp'', ''coinbase'', ''difficulty'',
                    ''prev_hashes'', ''chain_id'', ''gas_limit'', ''code_size_limit''}"
    by simp
  show ?thesis
    using h VMPatcher_unknown_name [OF h, of "vm example_env" "VInt 7"] by simp
qed

section \<open>Env.time_travel\<close>

lemma getattr_timestamp:
  "VMPatcher_getattr ''timestamp'' v = Inr (x_timestamp (execution_context (state v)))"
  by (simp add: VMPatcher_getattr_def patchables_def exc_patchables_def target_getattr_def)

lemma getattr_block_number:
  "VMPatcher_getattr ''block_number'' v = Inr (x_block_number (execution_context (state v)))"
  by (simp add: VMPatcher_getattr_def patchables_def exc_patchables_def target_getattr_def)

lemma setattr_timestamp:
  "VMPatcher_setattr ''timestamp'' x v = Inr (set_execution_context (\<lambda>c. c\<lparr>x_timestamp := x\<rparr>) v)"
  by (simp add: VMPatcher_setattr_def patchables_def exc_patchables_def target_setattr_def)

lemma setattr_block_number:
  "VMPatcher_setattr ''block_number'' x v = Inr (set_execution_context (\<lambda>c. c\<lparr>x_block_number := x\<rparr>) v)"
  by (simp add: VMPatcher_setattr_def patchables_def exc_patchables_def target_setattr_def)

lemma tt_both: "time_travel (Some s) (Some b) d e = (Inl (ValueError ''One of seconds or blocks should be set''), e)"
  by (simp add: time_travel_def)

lemma tt_neither: "time_travel None None d e = (Inl (ValueError ''One of seconds or blocks should be set''), e)"
  by (simp add: time_travel_def)

lemma tt_seconds:
  assumes "x_timestamp (execution_context (state (vm e))) = VInt t"
      and "x_block_number (execution_context (state (vm e))) = VInt n"
      and "d \<noteq> 0"
  shows "time_travel (Some s) None d e =
     (Inr (), e\<lparr>vm := set_execution_context (\<lambda>c. c\<lparr>x_timestamp := VInt (t + s), x_block_number := VInt (n + s div d)\<rparr>) (vm e)\<rparr>)"
  using assms
  by (simp add: time_travel_def patch_iadd_def getattr_timestamp getattr_block_number
      setattr_timestamp setattr_block_number set_execution_context_def)

lemma tt_blocks:
  assumes "x_timestamp (execution_context (state (vm e))) = VInt t"
      and "x_block_number (execution_context (state (vm e))) = VInt n"
  shows "time_travel None (Some b) d e =
     (Inr (), e\<lparr>vm := set_execution_context (\<lambda>c. c\<lparr>x_timestamp := VInt (t + b * d), x_block_number := VInt (n + b)\<rparr>) (vm e)\<rparr>)"
  using assms
  by (simp add: time_travel_def patch_iadd_def getattr_timestamp getattr_block_number
      setattr_timestamp setattr_block_number set_execution_context_def)


text \<open>
  C3. With a timestamp and a block number that are integers:
  \<^verbatim>\<open>time_travel(seconds=120, block_delta=12)\<close> returns normally, the block number is
  10 more and the timestamp 120 more; with both of seconds and blocks given, or neither,
  the call raises the ValueError (the specification's InvalidArgument) and changes
  nothing; with blocks alone it returns normally, the timestamp is
  \<open>blocks * block_delta\<close> more and the block number \<open>blocks\<close> more.
\<close>

theorem time_travel_advances:
  assumes "VMPatcher_getattr ''timestamp'' (vm e) = Inr (VInt t)"
      and "VMPatcher_getattr ''block_number'' (vm e) = Inr (VInt n)"
  shows "fst (time_travel (Some 120) None 12 e) = Inr () \<and>
         VMPatcher_getattr ''block_number'' (vm (snd (time_travel (Some 120) None 12 e)))
           = Inr (VInt (n + 10)) \<and>
         VMPatcher_getattr ''timestamp'' (vm (snd (time_travel (Some 120) None 12 e)))
           = Inr (VInt (t + 120)) \<and>
         time_travel (Some s) (Some b) d e
           = (Inl (ValueError ''One of seconds or blocks should be set''), e) \<and>
         time_travel None None d e
           = (Inl (ValueError ''One of seconds or blocks should be set''), e) \<and>
         fst (time_travel None (Some b) d e) = Inr () \<and>
         VMPatcher_getattr ''timestamp'' (vm (snd (time_travel None (Some b) d e)))
           = Inr (VInt (t + b * d)) \<and>
         VMPatcher_getattr ''block_number'' (vm (snd (time_travel None (Some b) d e)))
           = Inr (VInt (n + b))"
proof -
  from assms have ts: "x_timestamp (execution_context (state (vm e))) = VInt t"
    and bn: "x_block_number (execution_context (state (vm e))) = VInt n"
    by (simp_all add: getattr_timestamp getattr_block_number)
  have twelve: "(12::int) \<noteq> 0" by simp
  show ?thesis
    by (simp add: tt_seconds [OF ts bn twelve] tt_blocks [OF ts bn] tt_both tt_neither
        getattr_timestamp getattr_block_number set_execution_context_def)
qed

theorem time_travel_advances_witness:
  "VMPatcher_getattr ''timestamp'' (vm example_env) = Inr (VInt 1000) \<and>
   VMPatcher_getattr ''block_number'' (vm example_env) = Inr (VInt 1) \<and>
   fst (time_travel (Some 120) None 12 example_env) = Inr () \<and>
   VMPatcher_getattr ''block_number'' (vm (snd (time_travel (Some 120) None 12 example_env)))
     = Inr (VInt 11) \<and>
   VMPatcher_getattr ''timestamp'' (vm (snd (time_travel (Some 120) None 12 example_env)))
     = Inr (VInt 1120) \<and>
   fst (time_travel (Some 120) (Some 3) 12 example_env)
     = Inl (ValueError ''One of seconds or blocks should be set'') \<and>
   fst (time_travel None None 12 example_env)
     = Inl (ValueError ''One of seconds or blocks should be set'') \<and>
   VMPatcher_getattr ''timestamp'' (vm (snd (time_travel None (Some 3) 12 example_env)))
     = Inr (VInt 1036)"
proof -
  have ts: "VMPatcher_getattr ''timestamp'' (vm example_env) = Inr (VInt 1000)"
    by (simp add: getattr_timestamp example_env_def genesis_state_def genesis_context_def)
  have bn: "VMPatcher_getattr ''block_number'' (vm example_env) = Inr (VInt 1)"
    by (simp add: getattr_block_number example_env_def genesis_state_def genesis_context_def)
  show ?thesis
    using ts bn time_travel_advances [OF ts bn, where s = 120 and b = 3 and d = 12] by simp
qed

section \<open>Env.anchor\<close>

lemma anchor_save_all:
  "anchor_save patchable_keys [] v =
     Inr [(''code_size_limit'', EIP170_CODE_SIZE_LIMIT v),
          (''gas_limit'', x_gas_limit (execution_context (state v))),
          (''chain_id'', x_chain_id (execution_context (state v))),
          (''prev_hashes'', x_prev_hashes (execution_context (state v))),
          (''difficulty'', x_difficulty (execution_context (state v))),
          (''coinbase'', x_coinbase (execution_context (state v))),
          (''timestamp'', x_timestamp (execution_context (state v))),
          (''block_number'', x_block_number (execution_context (state v)))]"
  by (simp add: patchable_keys_def patchables_def exc_patchables_def cmp_patchables_def
      VMPatcher_getattr_def target_getattr_def)

lemma anchor_restore_all:
  "anchor_restore patchable_keys
     [(''code_size_limit'', EIP170_CODE_SIZE_LIMIT v),
          (''gas_limit'', x_gas_limit (execution_context (state v))),
          (''chain_id'', x_chain_id (execution_context (state v))),
          (''prev_hashes'', x_prev_hashes (execution_context (state v))),
          (''difficulty'', x_difficulty (execution_context (state v))),
          (''coinbase'', x_coinbase (execution_context (state v))),
          (''timestamp'', x_timestamp (execution_context (state v))),
          (''block_number'', x_block_number (execution_context (state v)))] v' =
   (None, v'\<lparr>state := (state v')\<lparr>execution_context := execution_context (state v)\<rparr>,
            EIP170_CODE_SIZE_LIMIT := EIP170_CODE_SIZE_LIMIT v\<rparr>)"
  by (simp add: patchable_keys_def patchables_def exc_patchables_def cmp_patchables_def
      VMPatcher_setattr_def target_setattr_def set_execution_context_def)


lemma revert_kept:
  assumes "take (Suc (length js)) (journal st2) = js @ [acc]"
  shows "revert (length js) st2 = Inr (st2\<lparr>accounts := acc, journal := js\<rparr>)"
proof -
  have len: "length js < length (journal st2)"
  proof (rule ccontr)
    assume "\<not> length js < length (journal st2)"
    then have "length (take (Suc (length js)) (journal st2)) \<le> length js" by simp
    with assms show False by simp
  qed
  have "take (Suc (length js)) (journal st2) ! length js = journal st2 ! length js"
    by simp
  with assms have nth: "journal st2 ! length js = acc" by simp
  have "take (length js) (take (Suc (length js)) (journal st2)) = take (length js) (journal st2)"
    by (simp add: min_def)
  with assms have tk: "take (length js) (journal st2) = js" by simp
  show ?thesis using len nth tk by (simp add: revert_def)
qed

lemma Env_anchor_eq:
  assumes keep: "take (Suc (length (journal (state (vm e)))))
                   (journal (state (vm (snd (body (at_entry e)))))) =
                 journal (state (vm e)) @ [accounts (state (vm e))]"
  shows "Env_anchor body e = (fst (body (at_entry e)), (snd (body (at_entry e)))\<lparr>vm := vm e\<rparr>)"
proof -
  obtain r e2 where b: "body (at_entry e) = (r, e2)" by (cases "body (at_entry e)")
  have sv: "vm (at_entry e) = (vm e)\<lparr>state := (state (vm e))\<lparr>journal := journal (state (vm e)) @ [accounts (state (vm e))]\<rparr>\<rparr>"
    by (simp add: at_entry_def snapshot_def)
  have ec: "execution_context (state (vm (at_entry e))) = execution_context (state (vm e))"
    "EIP170_CODE_SIZE_LIMIT (vm (at_entry e)) = EIP170_CODE_SIZE_LIMIT (vm e)"
    by (simp_all add: sv)
  have pa: "VMPatcher_anchor body (at_entry e) =
     (r, e2\<lparr>vm := (vm e2)\<lparr>state := (state (vm e2))\<lparr>execution_context := execution_context (state (vm e))\<rparr>,
            EIP170_CODE_SIZE_LIMIT := EIP170_CODE_SIZE_LIMIT (vm e)\<rparr>\<rparr>)"
    unfolding VMPatcher_anchor_def anchor_save_all patch_unwind_def
    by (simp add: b anchor_restore_all ec)
  from keep b have k2: "take (Suc (length (journal (state (vm e))))) (journal (state (vm e2))) =
                 journal (state (vm e)) @ [accounts (state (vm e))]" by simp
  have "Env_anchor body e = state_unwind (length (journal (state (vm e)))) (VMPatcher_anchor body (at_entry e))"
    by (simp add: Env_anchor_def at_entry_def snapshot_def)
  also have "\<dots> = (r, e2\<lparr>vm := vm e\<rparr>)"
  proof -
    let ?st = "(state (vm e2))\<lparr>execution_context := execution_context (state (vm e))\<rparr>"
    have "take (Suc (length (journal (state (vm e))))) (journal ?st) =
                 journal (state (vm e)) @ [accounts (state (vm e))]"
      using k2 by simp
    from revert_kept[OF this]
    have rv: "revert (length (journal (state (vm e)))) ?st =
       Inr (?st\<lparr>accounts := accounts (state (vm e)), journal := journal (state (vm e))\<rparr>)" .
    have st: "?st\<lparr>accounts := accounts (state (vm e)), journal := journal (state (vm e))\<rparr> = state (vm e)"
      by (rule vm_state.equality) simp_all
    have v: "(vm e2)\<lparr>state := state (vm e), EIP170_CODE_SIZE_LIMIT := EIP170_CODE_SIZE_LIMIT (vm e)\<rparr> = vm e"
      by (rule virtual_machine.equality) simp_all
    show ?thesis
      unfolding pa state_unwind_def
      using v by (simp add: rv st)
  qed
  finally show ?thesis by (simp add: b)
qed


text \<open>
  C1. Let the block leave the checkpoint that \<^verbatim>\<open>Env.anchor\<close> took in the engine's
  journal (it may take and release checkpoints of its own above it). Then
  \<^verbatim>\<open>Env.anchor\<close> ends the way the block ended, normally or with the block's
  exception, and on exit every balance and the patched timestamp have their values
  from before the anchor was entered; indeed the whole machine (account data, journal,
  every patched parameter) is as it was. The unwinding is in reverse order of
  acquisition: the saved patch values are written back first, and the engine's state
  is reverted to the snapshot after that.
\<close>

theorem Env_anchor_restores:
  assumes "take (Suc (length (journal (state (vm e)))))
             (journal (state (vm (snd (body (at_entry e)))))) =
           journal (state (vm e)) @ [accounts (state (vm e))]"
  shows "fst (Env_anchor body e) = fst (body (at_entry e)) \<and>
         get_balance (state (vm (snd (Env_anchor body e)))) a = get_balance (state (vm e)) a \<and>
         VMPatcher_getattr ''timestamp'' (vm (snd (Env_anchor body e)))
           = VMPatcher_getattr ''timestamp'' (vm e) \<and>
         vm (snd (Env_anchor body e)) = vm e \<and>
         (\<exists>snap. anchor_save patchable_keys [] (vm (at_entry e)) = Inr snap \<and>
            Env_anchor body e =
              state_unwind (fst (snapshot (state (vm e))))
                (patch_unwind snap (body (at_entry e))))"
proof -
  have order: "Env_anchor body e =
      state_unwind (fst (snapshot (state (vm e))))
        (patch_unwind [(''code_size_limit'', EIP170_CODE_SIZE_LIMIT (vm (at_entry e))),
          (''gas_limit'', x_gas_limit (execution_context (state (vm (at_entry e))))),
          (''chain_id'', x_chain_id (execution_context (state (vm (at_entry e))))),
          (''prev_hashes'', x_prev_hashes (execution_context (state (vm (at_entry e))))),
          (''difficulty'', x_difficulty (execution_context (state (vm (at_entry e))))),
          (''coinbase'', x_coinbase (execution_context (state (vm (at_entry e))))),
          (''timestamp'', x_timestamp (execution_context (state (vm (at_entry e))))),
          (''block_number'', x_block_number (execution_context (state (vm (at_entry e)))))]
         (body (at_entry e)))"
    by (simp add: Env_anchor_def at_entry_def snapshot_def VMPatcher_anchor_def anchor_save_all)
  have "\<exists>snap. anchor_save patchable_keys [] (vm (at_entry e)) = Inr snap \<and>
            Env_anchor body e =
              state_unwind (fst (snapshot (state (vm e))))
                (patch_unwind snap (body (at_entry e)))"
    using order anchor_save_all by blast
  then show ?thesis
    by (simp add: Env_anchor_eq [where body = body and e = e, OF assms])
qed

theorem Env_anchor_restores_witness:
  "take (Suc (length (journal (state (vm example_env)))))
     (journal (state (vm (snd (example_block (Some (OtherException ''boom''))
                                (at_entry example_env)))))) =
     journal (state (vm example_env)) @ [accounts (state (vm example_env))] \<and>
   get_balance (state (vm (snd (example_block (Some (OtherException ''boom''))
                                 (at_entry example_env))))) [1] = 5 \<and>
   VMPatcher_getattr ''timestamp''
     (vm (snd (example_block (Some (OtherException ''boom'')) (at_entry example_env))))
     = Inr (VInt 999) \<and>
   fst (Env_anchor (example_block (Some (OtherException ''boom''))) example_env)
     = Some (OtherException ''boom'') \<and>
   get_balance (state (vm (snd (Env_anchor (example_block (Some (OtherException ''boom'')))
                                 example_env)))) [1] = 0 \<and>
   VMPatcher_getattr ''timestamp''
     (vm (snd (Env_anchor (example_block (Some (OtherException ''boom''))) example_env)))
     = Inr (VInt 1000)"
proof -
  have h: "take (Suc (length (journal (state (vm example_env)))))
     (journal (state (vm (snd (example_block (Some (OtherException ''boom''))
                                (at_entry example_env)))))) =
     journal (state (vm example_env)) @ [accounts (state (vm example_env))]"
    by (simp add: example_block_def setattr_timestamp set_execution_context_def
        set_balance_def at_entry_def snapshot_def example_env_def genesis_state_def)
  show ?thesis
    using h Env_anchor_restores
      [where body = "example_block (Some (OtherException ''boom''))" and e = example_env
         and a = "[1]", OF h]
    by (simp add: example_block_def setattr_timestamp getattr_timestamp
        set_execution_context_def set_balance_def get_balance_def at_entry_def snapshot_def
        example_env_def genesis_state_def genesis_context_def)
qed

text \<open>The order of the two unwinding steps shows when the second one fails. If the
  block has dropped the anchor's checkpoint from the journal, the revert raises; the
  patch values have been written back by then.\<close>

lemma Env_anchor_revert_fails:
  assumes "length (journal (state (vm (snd (body (at_entry e)))))) \<le> length (journal (state (vm e)))"
  shows "fst (Env_anchor body e) = Some ValidationError \<and>
         execution_context (state (vm (snd (Env_anchor body e)))) = execution_context (state (vm e)) \<and>
         EIP170_CODE_SIZE_LIMIT (vm (snd (Env_anchor body e))) = EIP170_CODE_SIZE_LIMIT (vm e)"
proof -
  obtain r e2 where b: "body (at_entry e) = (r, e2)" by (cases "body (at_entry e)")
  have ec: "execution_context (state (vm (at_entry e))) = execution_context (state (vm e))"
    "EIP170_CODE_SIZE_LIMIT (vm (at_entry e)) = EIP170_CODE_SIZE_LIMIT (vm e)"
    by (simp_all add: at_entry_def snapshot_def)
  have pa: "VMPatcher_anchor body (at_entry e) =
     (r, e2\<lparr>vm := (vm e2)\<lparr>state := (state (vm e2))\<lparr>execution_context := execution_context (state (vm e))\<rparr>,
            EIP170_CODE_SIZE_LIMIT := EIP170_CODE_SIZE_LIMIT (vm e)\<rparr>\<rparr>)"
    unfolding VMPatcher_anchor_def anchor_save_all patch_unwind_def
    by (simp add: b anchor_restore_all ec)
  have "Env_anchor body e = state_unwind (length (journal (state (vm e)))) (VMPatcher_anchor body (at_entry e))"
    by (simp add: Env_anchor_def at_entry_def snapshot_def)
  then show ?thesis
    using assms b by (simp add: pa state_unwind_def revert_def)
qed

section \<open>Address and the precompile registry\<close>

lemma map_of_filter_append:
  "map_of (filter (\<lambda>p. fst p \<noteq> k) xs @ [(k, x)]) k = Some x"
  by (induction xs) auto

lemma lru_getitem_hit:
  assumes "map_of (lru_items d) k = Some x"
  shows "\<exists>d'. lru_getitem d k = Some (x, d') \<and> map_of (lru_items d') k = Some x \<and> lru_n d' = lru_n d"
  using assms by (simp add: lru_getitem_def map_of_filter_append del: map_of_append)

lemma lru_getitem_Some:
  assumes "lru_getitem d k = Some (x, d')"
  shows "map_of (lru_items d) k = Some x \<and> map_of (lru_items d') k = Some x \<and> lru_n d' = lru_n d"
proof (cases "map_of (lru_items d) k")
  case None
  with assms show ?thesis by (simp add: lru_getitem_def)
next
  case (Some y)
  with assms have "y = x" and "d' = d\<lparr>lru_items := filter (\<lambda>p. fst p \<noteq> k) (lru_items d) @ [(k, x)]\<rparr>"
    by (auto simp: lru_getitem_def)
  with Some show ?thesis
    by (simp add: map_of_filter_append del: map_of_append)
qed

lemma lru_setitem_cached:
  assumes "0 < lru_n d"
  shows "map_of (lru_items (lru_setitem k x d)) k = Some x"
proof (cases "filter (\<lambda>p. fst p \<noteq> k) (lru_items d)")
  case Nil
  with assms show ?thesis by (simp add: lru_setitem_def)
next
  case (Cons p ps)
  have "p \<in> set (filter (\<lambda>p. fst p \<noteq> k) (lru_items d))"
    using Cons by simp
  then have pk: "fst p \<noteq> k" by simp
  have full: "map_of ((p # ps) @ [(k, x)]) k = Some x"
    using map_of_filter_append [of k "lru_items d" x] Cons by simp
  then have rest: "map_of (ps @ [(k, x)]) k = Some x"
    using pk by (cases p) (simp del: map_of_append)
  show ?thesis
    using full rest Cons by (simp add: lru_setitem_def Let_def del: map_of_append)
qed

lemma lru_setitem_n: "lru_n (lru_setitem k x d) = lru_n d"
  by (simp add: lru_setitem_def Let_def)

lemma Address_new_Obj: "Address_new E (Obj r) g = (Inr r, g)"
  by (simp add: Address_new_def)

lemma Address_new_cached:
  assumes "cached g a = Some r"
  shows "fst (Address_new E (Raw a) g) = Inr r \<and>
         heap (snd (Address_new E (Raw a) g)) = heap g \<and>
         precompiles (snd (Address_new E (Raw a) g)) = precompiles g \<and>
         cached (snd (Address_new E (Raw a) g)) a = Some r \<and>
         lru_n (address_cache (snd (Address_new E (Raw a) g))) = lru_n (address_cache g)"
proof -
  from assms obtain d' where "lru_getitem (address_cache g) a = Some (r, d')"
    "map_of (lru_items d') a = Some r" "lru_n d' = lru_n (address_cache g)"
    using lru_getitem_hit[of "address_cache g" a r] by (auto simp: cached_def)
  then show ?thesis by (simp add: Address_new_def cached_def)
qed

lemma Address_new_Raw_result:
  assumes "0 < lru_n (address_cache g)" and "Address_new E (Raw a) g = (Inr r, g1)"
  shows "cached g1 a = Some r \<and> precompiles g1 = precompiles g \<and>
         lru_n (address_cache g1) = lru_n (address_cache g)"
proof (cases "lru_getitem (address_cache g) a")
  case None
  with assms show ?thesis
    by (auto simp: Address_new_def cached_def Let_def lru_setitem_cached lru_setitem_n
        split: sum.splits)
next
  case (Some p)
  obtain x d' where p: "p = (x, d')" by (cases p)
  with Some assms(2) have "x = r" "g1 = g\<lparr>address_cache := d'\<rparr>"
    by (auto simp: Address_new_def)
  with lru_getitem_Some[of "address_cache g" a x d'] Some p show ?thesis
    by (simp add: cached_def)
qed

lemma Address_new_again:
  assumes "0 < lru_n (address_cache g)" and "Address_new E address g = (Inr r, g1)"
  shows "fst (Address_new E address g1) = Inr r \<and>
         heap (snd (Address_new E address g1)) = heap g1 \<and>
         precompiles (snd (Address_new E address g1)) = precompiles g1 \<and>
         precompiles g1 = precompiles g"
proof (cases address)
  case (Obj r')
  with assms show ?thesis by (auto simp: Address_new_def)
next
  case (Raw a)
  with assms Address_new_Raw_result[of g E a r g1]
  have c: "cached g1 a = Some r" and p: "precompiles g1 = precompiles g" by simp_all
  from Address_new_cached[OF c, of E] p Raw show ?thesis by simp
qed


lemma Address_new_precompiles:
  "precompiles (snd (Address_new E address g)) = precompiles g"
  by (auto simp: Address_new_def Let_def split: addr_input.splits option.splits sum.splits)

lemma Address_new_lru_n:
  "lru_n (address_cache (snd (Address_new E address g))) = lru_n (address_cache g)"
  by (auto simp: Address_new_def Let_def lru_setitem_n lru_getitem_def
      split: addr_input.splits option.splits sum.splits)

text \<open>
  C6. \<^verbatim>\<open>Address(a)\<close> for an Address instance \<open>a\<close> returns that instance and
  changes nothing. For a raw input that the cache holds, \<^verbatim>\<open>Address\<close> returns the
  cached instance itself, creates no instance, and the input stays cached; and right
  after an instance has been constructed from a raw input (the cache has room for at
  least one entry; its capacity is 1024) the input is cached, so constructing from the
  same input again returns the referentially identical instance, whose checksummed and
  normalized forms are the same.
\<close>

theorem Address_new_identity:
  "Address_new E (Obj r) g = (Inr r, g) \<and>
   (cached g a = Some r' \<longrightarrow>
      fst (Address_new E (Raw a) g) = Inr r' \<and>
      heap (snd (Address_new E (Raw a) g)) = heap g \<and>
      cached (snd (Address_new E (Raw a) g)) a = Some r') \<and>
   (0 < lru_n (address_cache g) \<and> Address_new E (Raw a) g = (Inr r2, g1) \<longrightarrow>
      cached g1 a = Some r2 \<and>
      fst (Address_new E (Raw a) g1) = Inr r2 \<and>
      checksum_address (heap (snd (Address_new E (Raw a) g1)) ! r2)
        = checksum_address (heap g1 ! r2) \<and>
      normalized_address (heap (snd (Address_new E (Raw a) g1)) ! r2)
        = normalized_address (heap g1 ! r2))"
proof (intro conjI impI)
  show "Address_new E (Obj r) g = (Inr r, g)" by (rule Address_new_Obj)
next
  assume c: "cached g a = Some r'"
  from Address_new_cached [OF c, of E]
  show "fst (Address_new E (Raw a) g) = Inr r'"
    and "heap (snd (Address_new E (Raw a) g)) = heap g"
    and "cached (snd (Address_new E (Raw a) g)) a = Some r'" by simp_all
next
  assume h: "0 < lru_n (address_cache g) \<and> Address_new E (Raw a) g = (Inr r2, g1)"
  then have c: "cached g1 a = Some r2"
    using Address_new_Raw_result [of g E a r2 g1] by simp
  from c show "cached g1 a = Some r2" .
  from Address_new_cached [OF c, of E]
  show "fst (Address_new E (Raw a) g1) = Inr r2"
    and "checksum_address (heap (snd (Address_new E (Raw a) g1)) ! r2)
        = checksum_address (heap g1 ! r2)"
    and "normalized_address (heap (snd (Address_new E (Raw a) g1)) ! r2)
        = normalized_address (heap g1 ! r2)" by simp_all
qed

lemma example_Address_new:
  "Address_new example_codec (Raw (RBytes CONSOLE_ADDRESS)) fresh_globals =
     (Inr 0,
      \<lparr>address_cache = \<lparr>lru_n = 1024, lru_items = [(RBytes CONSOLE_ADDRESS, 0)]\<rparr>,
       heap = [\<lparr>checksum_address = ''0x000000000000000000636F6E736F6C652E6C6F67'',
                canonical_address = CONSOLE_ADDRESS,
                normalized_address = ''0x000000000000000000636f6e736f6c652e6c6f67''\<rparr>],
       precompiles = Map.empty\<rparr>)"
  by (simp add: Address_new_def lru_getitem_def lru_setitem_def example_codec_def
      fresh_globals_def CONSOLE_ADDRESS_def hex_byte_def lower_def lower_char_def Let_def)


theorem Address_new_identity_witness:
  "0 < lru_n (address_cache fresh_globals) \<and>
   Address_new example_codec (Raw (RBytes CONSOLE_ADDRESS)) fresh_globals = (Inr 0, globals_one_address) \<and>
   cached globals_one_address (RBytes CONSOLE_ADDRESS) = Some 0 \<and>
   fst (Address_new example_codec (Raw (RBytes CONSOLE_ADDRESS)) globals_one_address) = Inr 0 \<and>
   heap (snd (Address_new example_codec (Raw (RBytes CONSOLE_ADDRESS)) globals_one_address)) = heap globals_one_address \<and>
   normalized_address (heap (snd (Address_new example_codec (Raw (RBytes CONSOLE_ADDRESS)) globals_one_address)) ! 0)
     = ''0x000000000000000000636f6e736f6c652e6c6f67'' \<and>
   Address_new example_codec (Obj 0) globals_one_address = (Inr 0, globals_one_address)"
proof -
  have n: "0 < lru_n (address_cache fresh_globals)"
    by (simp add: fresh_globals_def)
  have first: "Address_new example_codec (Raw (RBytes CONSOLE_ADDRESS)) fresh_globals = (Inr 0, globals_one_address)"
    unfolding globals_one_address_def by (rule example_Address_new)
  have c: "cached globals_one_address (RBytes CONSOLE_ADDRESS) = Some 0"
    by (simp add: cached_def globals_one_address_def)
  have nm: "normalized_address (heap globals_one_address ! 0) = ''0x000000000000000000636f6e736f6c652e6c6f67''"
    by (simp add: globals_one_address_def)
  show ?thesis
    using n first c nm
      Address_new_identity [where E = example_codec and g = fresh_globals
        and a = "RBytes CONSOLE_ADDRESS" and ?r2.0 = 0 and ?g1.0 = globals_one_address and r = 0 and r' = 0]
      Address_new_identity [where E = example_codec and g = globals_one_address
        and a = "RBytes CONSOLE_ADDRESS" and r' = 0 and r = 0 and ?r2.0 = 0 and ?g1.0 = globals_one_address]
    by simp
qed

text \<open>A cached input keeps its instance for as long as it stays cached: whatever
  \<^verbatim>\<open>Address\<close> is called with next, the input is afterwards bound to the same
  instance, or evicted. (The cache is a dictionary: its keys are distinct.)\<close>

lemma map_of_filter_other:
  "a \<noteq> k \<Longrightarrow> map_of (filter (\<lambda>p. fst p \<noteq> k) xs) a = map_of xs a"
  by (induction xs) auto

lemma map_of_moved:
  "map_of (filter (\<lambda>p. fst p \<noteq> k) xs @ [(k, x)]) a = (if a = k then Some x else map_of xs a)"
proof (cases "a = k")
  case True
  then show ?thesis using map_of_filter_append [of k xs x] by simp
next
  case False
  then show ?thesis
    by (cases "map_of xs a") (simp_all add: map_of_filter_other map_add_def)
qed

lemma distinct_moved:
  "distinct (map fst xs) \<Longrightarrow> distinct (map fst (filter (\<lambda>p. fst p \<noteq> k) xs @ [(k, x)]))"
  by (induction xs) auto

lemma map_of_tl_distinct:
  assumes "distinct (map fst l)"
  shows "map_of (tl l) a = map_of l a \<or> map_of (tl l) a = None"
proof (cases l)
  case Nil
  then show ?thesis by simp
next
  case (Cons p ps)
  show ?thesis
  proof (cases "fst p = a")
    case True
    with assms Cons have "a \<notin> fst ` set ps" by auto
    then have "map_of ps a = None" by (simp add: map_of_eq_None_iff)
    with Cons show ?thesis by simp
  next
    case False
    with Cons show ?thesis by (cases p) simp
  qed
qed

lemma Address_new_binding_stable:
  assumes "distinct (map fst (lru_items (address_cache g)))" and "cached g a = Some r"
  shows "(cached (snd (Address_new E address g)) a = Some r \<or>
          cached (snd (Address_new E address g)) a = None) \<and>
         distinct (map fst (lru_items (address_cache (snd (Address_new E address g)))))"
proof (cases address)
  case (Obj r')
  with assms show ?thesis by (simp add: Address_new_def)
next
  case (Raw b)
  show ?thesis
  proof (cases "map_of (lru_items (address_cache g)) b")
    case (Some x)
    define items' where "items' = filter (\<lambda>p. fst p \<noteq> b) (lru_items (address_cache g)) @ [(b, x)]"
    from Some have res: "Address_new E address g =
        (Inr x, g\<lparr>address_cache := (address_cache g)\<lparr>lru_items := items'\<rparr>\<rparr>)"
      using Raw by (simp add: Address_new_def lru_getitem_def items'_def)
    from assms(2) Some have m: "map_of items' a = Some r"
      unfolding items'_def map_of_moved by (auto simp: cached_def)
    have d: "distinct (map fst items')"
      unfolding items'_def using assms(1) by (rule distinct_moved)
    show ?thesis
      unfolding res cached_def using m d by simp
  next
    case None
    with assms(2) have ab: "a \<noteq> b" by (auto simp: cached_def)
    from None have miss: "lru_getitem (address_cache g) b = None" by (simp add: lru_getitem_def)
    let ?rn = "length (heap g)"
    let ?l = "filter (\<lambda>p. fst p \<noteq> b) (lru_items (address_cache g)) @ [(b, ?rn)]"
    have dl: "distinct (map fst ?l)" using assms(1) by (rule distinct_moved)
    have ml: "map_of ?l a = Some r"
      unfolding map_of_moved using ab assms(2) by (simp add: cached_def)
    have dtl: "distinct (map fst (tl ?l))"
      using dl by (metis distinct_tl map_tl)
    have set_items: "lru_items (lru_setitem b ?rn (address_cache g)) = ?l \<or>
                     lru_items (lru_setitem b ?rn (address_cache g)) = tl ?l"
      by (simp add: lru_setitem_def Let_def)
    have "(map_of (lru_items (lru_setitem b ?rn (address_cache g))) a = Some r \<or>
          map_of (lru_items (lru_setitem b ?rn (address_cache g))) a = None) \<and>
          distinct (map fst (lru_items (lru_setitem b ?rn (address_cache g))))"
      using set_items ml dl dtl map_of_tl_distinct [OF dl, of a] by metis
    then show ?thesis
      using Raw miss assms
      by (auto simp: Address_new_def Let_def cached_def split: sum.splits)
  qed
qed

lemma register_unfold:
  assumes "Address_new E address g = (Inr r, g1)"
  shows "register_raw_precompile E address fn force g =
     (if precompiles g r \<noteq> None \<and> \<not> force
      then (Inl (ValueError (''Already registered: '' @ Address_str g1 r)), g1)
      else (Inr (), g1\<lparr>precompiles := (precompiles g)(r \<mapsto> fn)\<rparr>))"
proof -
  from assms Address_new_precompiles [of E address g]
  have "precompiles g1 = precompiles g" by simp
  with assms show ?thesis by (simp add: register_raw_precompile_def)
qed

lemma register_success:
  assumes "register_raw_precompile E address fn0 force g = (Inr (), g2)"
  shows "\<exists>r g1. Address_new E address g = (Inr r, g1) \<and>
           g2 = g1\<lparr>precompiles := (precompiles g)(r \<mapsto> fn0)\<rparr>"
proof (cases "Address_new E address g")
  case (Pair x g1)
  show ?thesis
  proof (cases x)
    case (Inl err)
    with Pair assms show ?thesis by (simp add: register_raw_precompile_def)
  next
    case (Inr r)
    with Pair have a: "Address_new E address g = (Inr r, g1)" by simp
    from assms show ?thesis
      unfolding register_unfold [OF a] using a by (auto split: if_splits)
  qed
qed

lemma Address_new_indep_precompiles:
  "Address_new E address (g\<lparr>precompiles := m\<rparr>) =
     (fst (Address_new E address g), (snd (Address_new E address g))\<lparr>precompiles := m\<rparr>)"
  by (auto simp: Address_new_def Let_def split: addr_input.splits option.splits sum.splits)

text \<open>
  The registry is keyed by the Address instance that \<^verbatim>\<open>Address(address)\<close> yields.
  When that very instance is already a key and force is false,
  \<^verbatim>\<open>register_raw_precompile\<close> raises the ValueError and the registry is unchanged; with
  force true it returns normally and the handler at that key is the new one. So
  registering the same input twice, while the cache still holds it, is detected.
\<close>

lemma register_raw_precompile_duplicate:
  "(Address_new E address g = (Inr r, g1) \<and> precompiles g r \<noteq> None \<longrightarrow>
      register_raw_precompile E address fn False g
        = (Inl (ValueError (''Already registered: '' @ Address_str g1 r)), g1) \<and>
      precompiles g1 = precompiles g) \<and>
   (Address_new E address g = (Inr r, g1) \<longrightarrow>
      register_raw_precompile E address fn True g
        = (Inr (), g1\<lparr>precompiles := (precompiles g)(r \<mapsto> fn)\<rparr>)) \<and>
   (0 < lru_n (address_cache g) \<and>
    register_raw_precompile E address fn0 force g = (Inr (), g2) \<longrightarrow>
      (\<exists>e. fst (register_raw_precompile E address fn False g2) = Inl (ValueError e)) \<and>
      precompiles (snd (register_raw_precompile E address fn False g2)) = precompiles g2 \<and>
      (\<exists>r'. precompiles g2 r' = Some fn0 \<and>
            fst (register_raw_precompile E address fn True g2) = Inr () \<and>
            precompiles (snd (register_raw_precompile E address fn True g2))
              = (precompiles g2)(r' \<mapsto> fn)))"
proof (intro conjI impI)
  assume h: "Address_new E address g = (Inr r, g1) \<and> precompiles g r \<noteq> None"
  then have a: "Address_new E address g = (Inr r, g1)" and b: "precompiles g r \<noteq> None"
    by simp_all
  from b show "register_raw_precompile E address fn False g
        = (Inl (ValueError (''Already registered: '' @ Address_str g1 r)), g1)"
    by (simp add: register_unfold [OF a])
  from a Address_new_precompiles [of E address g]
  show "precompiles g1 = precompiles g" by simp
next
  assume a: "Address_new E address g = (Inr r, g1)"
  show "register_raw_precompile E address fn True g
        = (Inr (), g1\<lparr>precompiles := (precompiles g)(r \<mapsto> fn)\<rparr>)"
    by (simp add: register_unfold [OF a])
next
  assume h: "0 < lru_n (address_cache g) \<and>
    register_raw_precompile E address fn0 force g = (Inr (), g2)"
  then obtain r0 g1' where a: "Address_new E address g = (Inr r0, g1')"
    and g2: "g2 = g1'\<lparr>precompiles := (precompiles g)(r0 \<mapsto> fn0)\<rparr>"
    using register_success by blast
  from h have n: "0 < lru_n (address_cache g)" by simp
  from Address_new_again [OF n a]
  have ag: "fst (Address_new E address g1') = Inr r0" by simp
  define g3 where "g3 = (snd (Address_new E address g1'))\<lparr>precompiles := (precompiles g)(r0 \<mapsto> fn0)\<rparr>"
  have a2: "Address_new E address g2 = (Inr r0, g3)"
    unfolding g2 g3_def Address_new_indep_precompiles using ag by simp
  have p2: "precompiles g2 r0 = Some fn0" by (simp add: g2)
  have p3: "precompiles g3 = precompiles g2" by (simp add: g3_def g2)
  show "\<exists>e. fst (register_raw_precompile E address fn False g2) = Inl (ValueError e)"
    by (simp add: register_unfold [OF a2] p2)
  show "precompiles (snd (register_raw_precompile E address fn False g2)) = precompiles g2"
    by (simp add: register_unfold [OF a2] p2 p3)
  show "\<exists>r'. precompiles g2 r' = Some fn0 \<and>
            fst (register_raw_precompile E address fn True g2) = Inr () \<and>
            precompiles (snd (register_raw_precompile E address fn True g2))
              = (precompiles g2)(r' \<mapsto> fn)"
    using p2 by (intro exI [of _ r0]) (simp add: register_unfold [OF a2])
qed


lemma example_Address_again:
  "Address_new example_codec (Raw (RBytes CONSOLE_ADDRESS)) globals_registered = (Inr 0, globals_registered)"
  by (simp add: Address_new_def lru_getitem_def globals_registered_def globals_one_address_def)

lemma example_register:
  "register_raw_precompile example_codec (Raw (RBytes CONSOLE_ADDRESS)) handler_a False
     fresh_globals = (Inr (), globals_registered)"
proof -
  have "Address_new example_codec (Raw (RBytes CONSOLE_ADDRESS)) fresh_globals = (Inr 0, globals_one_address)"
    unfolding globals_one_address_def by (rule example_Address_new)
  from register_unfold [OF this, of handler_a False]
  show ?thesis by (simp add: fresh_globals_def globals_registered_def globals_one_address_def)
qed

lemma register_raw_precompile_same_input:
  "0 < lru_n (address_cache fresh_globals) \<and>
   register_raw_precompile example_codec (Raw (RBytes CONSOLE_ADDRESS)) handler_a False
     fresh_globals = (Inr (), globals_registered) \<and>
   Address_new example_codec (Raw (RBytes CONSOLE_ADDRESS)) globals_registered = (Inr 0, globals_registered) \<and>
   precompiles globals_registered 0 = Some handler_a \<and>
   register_raw_precompile example_codec (Raw (RBytes CONSOLE_ADDRESS)) handler_b False globals_registered
     = (Inl (ValueError ''Already registered: 0x000000000000000000636F6E736F6C652E6C6F67''),
        globals_registered) \<and>
   fst (register_raw_precompile example_codec (Raw (RBytes CONSOLE_ADDRESS)) handler_b True
          globals_registered) = Inr () \<and>
   precompiles (snd (register_raw_precompile example_codec (Raw (RBytes CONSOLE_ADDRESS))
                       handler_b True globals_registered)) 0 = Some handler_b"
proof -
  have n: "0 < lru_n (address_cache fresh_globals)"
    by (simp add: fresh_globals_def)
  have p: "precompiles globals_registered 0 = Some handler_a"
    by (simp add: globals_registered_def)
  have s: "Address_str globals_registered 0 = ''0x000000000000000000636F6E736F6C652E6C6F67''"
    by (simp add: Address_str_def globals_registered_def globals_one_address_def)
  show ?thesis
    using n p s example_register example_Address_again
      register_raw_precompile_duplicate [where E = example_codec
        and address = "Raw (RBytes CONSOLE_ADDRESS)" and g = globals_registered and r = 0 and ?g1.0 = globals_registered
        and fn = handler_b and ?fn0.0 = handler_a and force = False and ?g2.0 = globals_registered]
      register_raw_precompile_duplicate [where E = example_codec
        and address = "Raw (RBytes CONSOLE_ADDRESS)" and g = fresh_globals and r = 0
        and ?g1.0 = globals_one_address and fn = handler_b and ?fn0.0 = handler_a
        and force = False and ?g2.0 = globals_registered]
    by simp
qed


lemma address_bytes_text: "address_bytes (RStr CONSOLE_TEXT) = Some CONSOLE_ADDRESS"
  by (simp add: address_bytes_def CONSOLE_TEXT_def CONSOLE_ADDRESS_def hex_digit_def)

lemma address_bytes_bytes: "address_bytes (RBytes CONSOLE_ADDRESS) = Some CONSOLE_ADDRESS"
  by (simp add: address_bytes_def CONSOLE_ADDRESS_def)

lemma console_text_form:
  "concat (map hex_byte CONSOLE_ADDRESS) = ''000000000000000000636F6E736F6C652E6C6F67''"
  by (simp add: CONSOLE_ADDRESS_def hex_byte_def)

lemma console_lower:
  "lower ''0x000000000000000000636F6E736F6C652E6C6F67'' = ''0x000000000000000000636f6e736f6c652e6c6f67''"
  by (simp add: lower_def lower_char_def)

lemma text_codec_console:
  "to_checksum_address text_codec (RBytes CONSOLE_ADDRESS) = Inr ''0x000000000000000000636F6E736F6C652E6C6F67''"
  "to_canonical_address text_codec (RBytes CONSOLE_ADDRESS) = Inr CONSOLE_ADDRESS"
  "to_checksum_address text_codec (RStr CONSOLE_TEXT) = Inr ''0x000000000000000000636F6E736F6C652E6C6F67''"
  "to_canonical_address text_codec (RStr CONSOLE_TEXT) = Inr CONSOLE_ADDRESS"
  by (simp_all add: text_codec_def address_bytes_bytes address_bytes_text console_text_form)

lemma text_codec_register_first:
  "register_raw_precompile text_codec (Raw (RBytes CONSOLE_ADDRESS)) handler_a False
     fresh_globals = (Inr (), globals_registered)"
  by (simp add: register_raw_precompile_def Address_new_def lru_getitem_def lru_setitem_def
      text_codec_console console_lower fresh_globals_def globals_registered_def
      globals_one_address_def Let_def)

lemma text_codec_second_Address:
  "Address_new text_codec (Raw (RStr CONSOLE_TEXT)) globals_registered
     = (Inr 1, globals_second_spelling)"
  by (simp add: Address_new_def lru_getitem_def lru_setitem_def
      text_codec_console console_lower globals_registered_def globals_second_spelling_def
      globals_one_address_def Let_def)

text \<open>
  C7. Membership in the registry is by the identity of the Address instance, because
  the class defines neither \<^verbatim>\<open>__eq__\<close> nor \<^verbatim>\<open>__hash__\<close>. When \<^verbatim>\<open>Address(address)\<close>
  yields an instance that is not a key, while another instance with the same canonical
  address is one (the address is bound), \<^verbatim>\<open>register_raw_precompile\<close> with force false
  raises nothing: it returns normally and binds a second handler, and the first one
  stays; with force true the existing handler is not replaced either. This happens
  when the bound address is given in another spelling (bytes, then text), or after the
  cache has evicted the input.
\<close>

theorem register_raw_precompile_other_instance:
  assumes "Address_new E address g = (Inr r2, g1)"
      and "precompiles g r1 = Some fn1"
      and "precompiles g r2 = None"
      and "canonical_address (deref g1 r2) = canonical_address (deref g1 r1)"
  shows "register_raw_precompile E address fn False g
           = (Inr (), g1\<lparr>precompiles := (precompiles g)(r2 \<mapsto> fn)\<rparr>) \<and>
         precompiles (snd (register_raw_precompile E address fn False g)) r1 = Some fn1 \<and>
         precompiles (snd (register_raw_precompile E address fn False g)) r2 = Some fn \<and>
         precompiles (snd (register_raw_precompile E address fn True g)) r1 = Some fn1"
proof -
  from assms(2,3) have ne: "r2 \<noteq> r1" by auto
  show ?thesis
    using assms(2,3) ne by (simp add: register_unfold [OF assms(1)])
qed

theorem register_raw_precompile_other_instance_witness:
  "register_raw_precompile text_codec (Raw (RBytes CONSOLE_ADDRESS)) handler_a False
     fresh_globals = (Inr (), globals_registered) \<and>
   Address_new text_codec (Raw (RStr CONSOLE_TEXT)) globals_registered
     = (Inr 1, globals_second_spelling) \<and>
   precompiles globals_registered 0 = Some handler_a \<and>
   precompiles globals_registered 1 = None \<and>
   canonical_address (deref globals_second_spelling 1) = CONSOLE_ADDRESS \<and>
   canonical_address (deref globals_second_spelling 0) = CONSOLE_ADDRESS \<and>
   fst (register_raw_precompile text_codec (Raw (RStr CONSOLE_TEXT)) handler_b False
          globals_registered) = Inr () \<and>
   precompiles (snd (register_raw_precompile text_codec (Raw (RStr CONSOLE_TEXT)) handler_b
                       False globals_registered)) 0 = Some handler_a \<and>
   precompiles (snd (register_raw_precompile text_codec (Raw (RStr CONSOLE_TEXT)) handler_b
                       False globals_registered)) 1 = Some handler_b \<and>
   precompiles (snd (register_raw_precompile text_codec (Raw (RStr CONSOLE_TEXT)) handler_b
                       True globals_registered)) 0 = Some handler_a"
proof -
  have p0: "precompiles globals_registered 0 = Some handler_a"
    by (simp add: globals_registered_def)
  have p1: "precompiles globals_registered 1 = None"
    by (simp add: globals_registered_def globals_one_address_def)
  have c1: "canonical_address (deref globals_second_spelling 1) = CONSOLE_ADDRESS"
    and c0: "canonical_address (deref globals_second_spelling 0) = CONSOLE_ADDRESS"
    by (simp_all add: deref_def globals_second_spelling_def)
  from c0 c1 have same: "canonical_address (deref globals_second_spelling 1)
      = canonical_address (deref globals_second_spelling 0)" by simp
  from p0 register_raw_precompile_other_instance
      [OF text_codec_second_Address p0 p1 same, where fn = handler_b]
  have "fst (register_raw_precompile text_codec (Raw (RStr CONSOLE_TEXT)) handler_b False
          globals_registered) = Inr ()"
    and "precompiles (snd (register_raw_precompile text_codec (Raw (RStr CONSOLE_TEXT)) handler_b
                       False globals_registered)) 0 = Some handler_a"
    and "precompiles (snd (register_raw_precompile text_codec (Raw (RStr CONSOLE_TEXT)) handler_b
                       False globals_registered)) 1 = Some handler_b"
    and "precompiles (snd (register_raw_precompile text_codec (Raw (RStr CONSOLE_TEXT)) handler_b
                       True globals_registered)) 0 = Some handler_a"
    by simp_all
  with text_codec_register_first text_codec_second_Address p0 p1 c0 c1 show ?thesis by blast
qed

section \<open>The tracing hooks\<close>

lemma last_two_ge2:
  assumes "2 \<le> length xs"
  shows "last_two xs = [last (butlast xs), last xs]"
proof -
  from assms have ne: "xs \<noteq> []" by auto
  from assms have ne2: "butlast xs \<noteq> []" by (cases xs rule: rev_cases) auto
  have x: "xs = butlast xs @ [last xs]" using ne by simp
  have b: "butlast xs = butlast (butlast xs) @ [last (butlast xs)]" using ne2 by simp
  have "xs = butlast (butlast xs) @ [last (butlast xs), last xs]"
    using x b by (metis append.assoc append_Cons append_Nil)
  then have "last_two xs = last_two (butlast (butlast xs) @ [last (butlast xs), last xs])"
    by simp
  also have "\<dots> = [last (butlast xs), last xs]"
    by (simp add: last_two_def)
  finally show ?thesis .
qed

lemma Sstore_call_env:
  assumes "2 \<le> length (c_stack c)"
  shows "snd (snd (SstoreTracer_call sstore c e)) = trace_sstore (storage_address (c_msg c)) (written_slot c) e"
    and "fst (SstoreTracer_call sstore c e) = fst (sstore c)"
    and "fst (snd (SstoreTracer_call sstore c e)) = snd (sstore c)"
  by (simp_all add: SstoreTracer_call_def last_two_ge2 [OF assms] written_slot_def Let_def
      split_beta)


lemma trace_sstore_other:
  "b \<noteq> a \<Longrightarrow> sstore_trace (trace_sstore a slot e) b = sstore_trace e b"
  by (simp add: trace_sstore_def)


lemma run_sstores_other:
  assumes "\<forall>c \<in> set cs. storage_address (c_msg c) = a \<and> 2 \<le> length (c_stack c)" and "b \<noteq> a"
  shows "sstore_trace (run_sstores sstore cs e) b = sstore_trace e b"
  using assms
proof (induction cs arbitrary: e)
  case Nil
  then show ?case by simp
next
  case (Cons c cs)
  then have c: "storage_address (c_msg c) = a" "2 \<le> length (c_stack c)"
    and rest: "\<forall>c \<in> set cs. storage_address (c_msg c) = a \<and> 2 \<le> length (c_stack c)"
    by simp_all
  have step: "run_sstores sstore (c # cs) e = run_sstores sstore cs (trace_sstore a (written_slot c) e)"
    using Sstore_call_env(1) [OF c(2), of sstore e] c(1) by simp
  show ?case unfolding step using Cons.IH [OF rest \<open>b \<noteq> a\<close>] \<open>b \<noteq> a\<close>
    by (simp add: trace_sstore_other)
qed










section \<open>The contract registry\<close>

text \<open>\<^verbatim>\<open>register_contract\<close> is the one place that writes \<^verbatim>\<open>_contracts\<close>, and its key
  is the canonical form of an address, 20 bytes long. So in every environment reached
  from an empty registry there is no entry under the empty byte string.\<close>

lemma lru_setitem_items:
  "set (lru_items (lru_setitem k x d)) \<subseteq> insert (k, x) (set (lru_items d))"
proof -
  let ?l = "filter (\<lambda>p. fst p \<noteq> k) (lru_items d) @ [(k, x)]"
  have "set (tl ?l) \<subseteq> set ?l" by (cases ?l) auto
  then show ?thesis by (auto simp: lru_setitem_def Let_def)
qed

lemma Address_new_ok:
  assumes "codec_ok E" and "globals_ok g" and "input_ok g address"
      and "Address_new E address g = (Inr r, g1)"
  shows "globals_ok g1 \<and> r < length (heap g1) \<and>
         length (canonical_address (deref g1 r)) = 20"
proof (cases address)
  case (Obj r')
  with assms show ?thesis
    by (auto simp: Address_new_def input_ok_def globals_ok_def deref_def)
next
  case (Raw a)
  show ?thesis
  proof (cases "lru_getitem (address_cache g) a")
    case (Some p)
    obtain x d' where p: "p = (x, d')" by (cases p)
    from Some p have m: "map_of (lru_items (address_cache g)) a = Some x"
      and d': "d' = (address_cache g)\<lparr>lru_items := filter (\<lambda>p. fst p \<noteq> a) (lru_items (address_cache g)) @ [(a, x)]\<rparr>"
      by (auto simp: lru_getitem_def split: option.splits)
    from m have "(a, x) \<in> set (lru_items (address_cache g))" by (rule map_of_SomeD)
    with assms(2) have xl: "x < length (heap g)" by (auto simp: globals_ok_def)
    from assms(4) Raw Some p have r: "r = x" and g1: "g1 = g\<lparr>address_cache := d'\<rparr>"
      by (auto simp: Address_new_def)
    from assms(2) xl have "globals_ok g1"
      unfolding g1 d' by (auto simp: globals_ok_def)
    moreover from assms(2) xl have "length (canonical_address (deref g1 r)) = 20"
      unfolding g1 r by (simp add: globals_ok_def deref_def)
    ultimately show ?thesis using xl by (simp add: r g1)
  next
    case None
    obtain cs where cs: "to_checksum_address E a = Inr cs"
      using assms(4) Raw None
      by (cases "to_checksum_address E a") (simp_all add: Address_new_def)
    obtain cn where cn: "to_canonical_address E a = Inr cn"
      using assms(4) Raw None cs
      by (cases "to_canonical_address E a") (simp_all add: Address_new_def)
    have res: "Address_new E address g =
        (Inr (length (heap g)),
         g\<lparr>heap := heap g @ [\<lparr>checksum_address = cs, canonical_address = cn,
                                      normalized_address = lower cs\<rparr>],
           address_cache := lru_setitem a (length (heap g)) (address_cache g)\<rparr>)"
      using Raw None cs cn by (simp add: Address_new_def Let_def)
    from res assms(4) have r: "r = length (heap g)" by simp
    from res assms(4)
    have g1: "g1 = g\<lparr>heap := heap g @ [\<lparr>checksum_address = cs, canonical_address = cn,
                                      normalized_address = lower cs\<rparr>],
                     address_cache := lru_setitem a (length (heap g)) (address_cache g)\<rparr>"
      by simp
    from assms(1) cn have l: "length cn = 20" by (auto simp: codec_ok_def)
    have h: "\<forall>x \<in> set (heap g1). length (canonical_address x) = 20"
      using assms(2) l by (auto simp: g1 globals_ok_def)
    have "\<forall>p \<in> set (lru_items (address_cache g1)). snd p < length (heap g1)"
    proof
      fix p assume "p \<in> set (lru_items (address_cache g1))"
      then have "p \<in> insert (a, length (heap g)) (set (lru_items (address_cache g)))"
        using lru_setitem_items [of a "length (heap g)" "address_cache g"] by (auto simp: g1)
      then have "snd p < Suc (length (heap g))"
        using assms(2) by (auto simp: globals_ok_def less_Suc_eq)
      then show "snd p < length (heap g1)" by (simp add: g1)
    qed
    with h have "globals_ok g1" by (simp add: globals_ok_def)
    then show ?thesis using l by (simp add: r g1 deref_def)
  qed
qed

lemma Address_new_error:
  "Address_new E address g = (Inl err, g1) \<Longrightarrow> g1 = g"
  by (auto simp: Address_new_def Let_def split: addr_input.splits option.splits sum.splits)

lemma register_contract_keeps:
  assumes "codec_ok E" and "globals_ok (snd w)" and "input_ok (snd w) address"
      and "contracts (fst w) [] = None"
  shows "contracts (fst (snd (register_contract E address obj w))) [] = None \<and>
         globals_ok (snd (snd (register_contract E address obj w)))"
proof (cases "Address_new E address (snd w)")
  case (Pair x g1)
  show ?thesis
  proof (cases x)
    case (Inl err)
    with Pair have "Address_new E address (snd w) = (Inl err, g1)" by simp
    from Address_new_error [OF this] have "g1 = snd w" .
    with Pair Inl assms show ?thesis
      by (simp add: register_contract_def)
  next
    case (Inr r)
    with Pair have a: "Address_new E address (snd w) = (Inr r, g1)" by simp
    from Address_new_ok [OF assms(1,2,3) a]
    have ok: "globals_ok g1" and l: "length (canonical_address (deref g1 r)) = 20" by simp_all
    from l have "canonical_address (deref g1 r) \<noteq> []" by auto
    with a ok assms(4) show ?thesis
      by (simp add: register_contract_def Let_def)
  qed
qed

section \<open>Dispatch, creation and invocation\<close>

lemma apply_computation_super:
  "lookup_contract_fast e (code_address m) = None \<or> speed e = SLOW \<Longrightarrow>
   apply_computation G e st m t = super_apply_computation G st m t"
  by (auto simp: apply_computation_def Let_def split: option.splits)

lemma apply_computation_native:
  assumes "contracts e [] = None"
      and "lookup_contract_fast e (code_address m) = Some k" and "speed e \<noteq> SLOW"
  shows "apply_computation G e st m t =
           with_computation_exit (exec_catching_Halt k (titanoboa_computation st m t))"
proof -
  from assms(1,2) have "code_address m \<noteq> []"
    by (auto simp: lookup_contract_fast_def)
  with assms(2,3) show ?thesis
    by (simp add: apply_computation_def Let_def)
qed

lemma apply_computation_cases:
  assumes "contracts e [] = None"
  shows "(lookup_contract_fast e (code_address m) = None \<or> speed e = SLOW \<longrightarrow>
            apply_computation G e st m t = super_apply_computation G st m t) \<and>
         (lookup_contract_fast e (code_address m) = Some k \<and> speed e \<noteq> SLOW \<longrightarrow>
            (ir_executor_exec k (titanoboa_computation st m t) = (None, c') \<longrightarrow>
               apply_computation G e st m t = Inr c') \<and>
            (ir_executor_exec k (titanoboa_computation st m t) = (Some Halt, c') \<longrightarrow>
               apply_computation G e st m t = Inr c') \<and>
            (ir_executor_exec k (titanoboa_computation st m t) = (Some (VMError x), c') \<longrightarrow>
               apply_computation G e st m t = Inr (set_error (VMError x) c')) \<and>
            (ir_executor_exec k (titanoboa_computation st m t) = (Some err, c') \<and>
             err \<noteq> Halt \<and> (\<forall>y. err \<noteq> VMError y) \<longrightarrow>
               apply_computation G e st m t = Inl err))"
proof (intro conjI impI)
  assume "lookup_contract_fast e (code_address m) = None \<or> speed e = SLOW"
  then show "apply_computation G e st m t = super_apply_computation G st m t"
    by (rule apply_computation_super)
next
  assume h: "lookup_contract_fast e (code_address m) = Some k \<and> speed e \<noteq> SLOW"
  then have n: "apply_computation G e st m t =
           with_computation_exit (exec_catching_Halt k (titanoboa_computation st m t))"
    using apply_computation_native [OF assms, of m k G st t] by simp
  {
    assume "ir_executor_exec k (titanoboa_computation st m t) = (None, c')"
    then show "apply_computation G e st m t = Inr c'"
      by (simp add: n exec_catching_Halt_def with_computation_exit_def)
  next
    assume "ir_executor_exec k (titanoboa_computation st m t) = (Some Halt, c')"
    then show "apply_computation G e st m t = Inr c'"
      by (simp add: n exec_catching_Halt_def with_computation_exit_def)
  next
    assume "ir_executor_exec k (titanoboa_computation st m t) = (Some (VMError x), c')"
    then show "apply_computation G e st m t = Inr (set_error (VMError x) c')"
      by (simp add: n exec_catching_Halt_def with_computation_exit_def)
  next
    assume "ir_executor_exec k (titanoboa_computation st m t) = (Some err, c') \<and>
             err \<noteq> Halt \<and> (\<forall>y. err \<noteq> VMError y)"
    then show "apply_computation G e st m t = Inl err"
      by (cases err) (simp_all add: n exec_catching_Halt_def with_computation_exit_def)
  }
qed


lemma new_frame_fields:
  "c_state (titanoboa_computation st m t) = st \<and>
   c_msg (titanoboa_computation st m t) = m \<and>
   c_tx (titanoboa_computation st m t) = t \<and>
   c_code (titanoboa_computation st m t) =
     \<lparr>raw_code_bytes = msg_code m, program_counter = msg_start_pc m, pc_trace = [],
      fake_codesize = msg_fake_codesize m\<rparr> \<and>
   c_stack (titanoboa_computation st m t) = [] \<and>
   c_memory (titanoboa_computation st m t) = [] \<and>
   c_error (titanoboa_computation st m t) = None \<and>
   c_children (titanoboa_computation st m t) = []"
  by (simp add: titanoboa_computation_def TracingCodeStream_def)


text \<open>
  C4. The registry's keys are canonical addresses (\<^verbatim>\<open>register_contract\<close> writes no
  other key), so it has no entry for the empty byte string. Then: when no contract is
  registered for the message's code address, or the environment's speed is slow,
  \<^verbatim>\<open>apply_computation\<close> is the engine's interpreter on the same arguments. When a
  contract is found and the speed is not slow, the contract's native executor runs on
  a new frame for the state, the message and the transaction context, with nothing on
  its stack and no error, and the outcome is the executor's: if it returns,
  \<^verbatim>\<open>apply_computation\<close> returns the frame as the executor left it; if it raises Halt,
  the same, with no exception and no error recorded; if it raises a VMError, the frame
  is returned with that error recorded on it by the frame's exit; any other exception
  leaves \<^verbatim>\<open>apply_computation\<close>.
\<close>

theorem apply_computation_dispatch:
  assumes "contracts e [] = None"
  shows "(lookup_contract_fast e (code_address m) = None \<or> speed e = SLOW \<longrightarrow>
            apply_computation G e st m t = super_apply_computation G st m t) \<and>
         (lookup_contract_fast e (code_address m) = Some k \<and> speed e \<noteq> SLOW \<longrightarrow>
            (ir_executor_exec k (titanoboa_computation st m t) = (None, c') \<longrightarrow>
               apply_computation G e st m t = Inr c') \<and>
            (ir_executor_exec k (titanoboa_computation st m t) = (Some Halt, c') \<longrightarrow>
               apply_computation G e st m t = Inr c') \<and>
            (ir_executor_exec k (titanoboa_computation st m t) = (Some (VMError x), c') \<longrightarrow>
               apply_computation G e st m t = Inr (set_error (VMError x) c')) \<and>
            (ir_executor_exec k (titanoboa_computation st m t) = (Some err, c') \<and>
             err \<noteq> Halt \<and> (\<forall>y. err \<noteq> VMError y) \<longrightarrow>
               apply_computation G e st m t = Inl err)) \<and>
         c_state (titanoboa_computation st m t) = st \<and>
         c_msg (titanoboa_computation st m t) = m \<and>
         c_tx (titanoboa_computation st m t) = t \<and>
         c_code (titanoboa_computation st m t) =
           \<lparr>raw_code_bytes = msg_code m, program_counter = msg_start_pc m, pc_trace = [],
            fake_codesize = msg_fake_codesize m\<rparr> \<and>
         c_stack (titanoboa_computation st m t) = [] \<and>
         c_memory (titanoboa_computation st m t) = [] \<and>
         c_error (titanoboa_computation st m t) = None \<and>
         c_output (titanoboa_computation st m t) = [] \<and>
         c_children (titanoboa_computation st m t) = [] \<and>
         c_child_pcs (titanoboa_computation st m t) = [] \<and>
         c_error (set_error (VMError x) c') = Some (VMError x) \<and>
         c_state (set_error (VMError x) c') = c_state c' \<and>
         c_msg (set_error (VMError x) c') = c_msg c' \<and>
         c_tx (set_error (VMError x) c') = c_tx c' \<and>
         c_code (set_error (VMError x) c') = c_code c' \<and>
         c_stack (set_error (VMError x) c') = c_stack c' \<and>
         c_memory (set_error (VMError x) c') = c_memory c' \<and>
         c_output (set_error (VMError x) c') = c_output c' \<and>
         c_children (set_error (VMError x) c') = c_children c' \<and>
         c_child_pcs (set_error (VMError x) c') = c_child_pcs c'"
  using apply_computation_cases [OF assms, of m G st t k c' x err]
    new_frame_fields [of st m t]
  by (simp add: set_error_def titanoboa_computation_def)

lemma native_env_facts:
  "contracts (native_env f) [] = None"
  "lookup_contract_fast (native_env f) (code_address example_msg) = Some (Contract f)"
  "speed (native_env f) \<noteq> SLOW"
  by (simp_all add: native_env_def example_env_def CONSOLE_ADDRESS_def lookup_contract_fast_def
      code_address_def example_msg_def SLOW_def FAST_def)

theorem apply_computation_dispatch_witness:
  "contracts (native_env native_return) [] = None \<and>
   lookup_contract_fast (native_env native_return) (code_address example_msg)
     = Some (Contract native_return) \<and>
   speed (native_env native_return) \<noteq> SLOW \<and>
   apply_computation (constant_engine reverted_frame) (native_env native_return) genesis_state
       example_msg example_tx = Inr (with_output [7] new_frame) \<and>
   apply_computation (constant_engine reverted_frame) (native_env native_halt) genesis_state
       example_msg example_tx = Inr (with_output [7] new_frame) \<and>
   apply_computation (constant_engine reverted_frame) (native_env native_revert) genesis_state
       example_msg example_tx = Inr (set_error (VMError ''Revert'') (with_output [7] new_frame)) \<and>
   apply_computation (constant_engine reverted_frame) (native_env native_crash) genesis_state
       example_msg example_tx = Inl (OtherException ''crash'') \<and>
   c_output (with_output [7] new_frame) = [7] \<and>
   c_error (with_output [7] new_frame) = None \<and>
   c_error (set_error (VMError ''Revert'') (with_output [7] new_frame)) = Some (VMError ''Revert'') \<and>
   c_output (set_error (VMError ''Revert'') (with_output [7] new_frame)) = [7] \<and>
   lookup_contract_fast example_env (code_address example_msg) = None \<and>
   apply_computation (constant_engine reverted_frame) example_env genesis_state example_msg
       example_tx = Inr reverted_frame \<and>
   apply_computation (constant_engine reverted_frame) ((native_env native_return)\<lparr>speed := SLOW\<rparr>)
       genesis_state example_msg example_tx = Inr reverted_frame"
proof -
  have su: "super_apply_computation (constant_engine reverted_frame) genesis_state example_msg
       example_tx = Inr reverted_frame"
    by (simp add: constant_engine_def)
  have r: "apply_computation (constant_engine reverted_frame) (native_env native_return) genesis_state
       example_msg example_tx = Inr (with_output [7] new_frame)"
    using native_env_facts(2,3) [of native_return]
      apply_computation_dispatch [OF native_env_facts(1) [of native_return],
        where m = example_msg and k = "Contract native_return"
        and G = "constant_engine reverted_frame" and st = genesis_state and t = example_tx
        and c' = "with_output [7] new_frame"]
    by (simp add: native_return_def new_frame_def)
  have h: "apply_computation (constant_engine reverted_frame) (native_env native_halt) genesis_state
       example_msg example_tx = Inr (with_output [7] new_frame)"
    using native_env_facts(2,3) [of native_halt]
      apply_computation_dispatch [OF native_env_facts(1) [of native_halt],
        where m = example_msg and k = "Contract native_halt"
        and G = "constant_engine reverted_frame" and st = genesis_state and t = example_tx
        and c' = "with_output [7] new_frame"]
    by (simp add: native_halt_def new_frame_def)
  have v: "apply_computation (constant_engine reverted_frame) (native_env native_revert) genesis_state
       example_msg example_tx = Inr (set_error (VMError ''Revert'') (with_output [7] new_frame))"
    using native_env_facts(2,3) [of native_revert]
      apply_computation_dispatch [OF native_env_facts(1) [of native_revert],
        where m = example_msg and k = "Contract native_revert"
        and G = "constant_engine reverted_frame" and st = genesis_state and t = example_tx
        and c' = "with_output [7] new_frame" and x = "''Revert''"]
    by (simp add: native_revert_def new_frame_def)
  have c: "apply_computation (constant_engine reverted_frame) (native_env native_crash) genesis_state
       example_msg example_tx = Inl (OtherException ''crash'')"
    using native_env_facts(2,3) [of native_crash]
      apply_computation_dispatch [OF native_env_facts(1) [of native_crash],
        where m = example_msg and k = "Contract native_crash"
        and G = "constant_engine reverted_frame" and st = genesis_state and t = example_tx
        and c' = "with_output [7] new_frame" and err = "OtherException ''crash''"]
    by (simp add: native_crash_def new_frame_def)
  have wf0: "contracts example_env [] = None" by (simp add: example_env_def)
  have k0: "lookup_contract_fast example_env (code_address example_msg) = None"
    by (simp add: lookup_contract_fast_def example_env_def)
  have absent: "apply_computation (constant_engine reverted_frame) example_env genesis_state
       example_msg example_tx = Inr reverted_frame"
    using k0 su apply_computation_dispatch [OF wf0, where m = example_msg
        and G = "constant_engine reverted_frame" and st = genesis_state and t = example_tx]
    by simp
  have wf1: "contracts ((native_env native_return)\<lparr>speed := SLOW\<rparr>) [] = None"
    using native_env_facts(1) [of native_return] by simp
  have slow: "apply_computation (constant_engine reverted_frame)
       ((native_env native_return)\<lparr>speed := SLOW\<rparr>) genesis_state example_msg example_tx
       = Inr reverted_frame"
    using su apply_computation_dispatch [OF wf1, where m = example_msg
        and G = "constant_engine reverted_frame" and st = genesis_state and t = example_tx]
    by simp
  have o: "c_output (with_output [7] new_frame) = [7]"
    "c_error (with_output [7] new_frame) = None"
    "c_error (set_error (VMError ''Revert'') (with_output [7] new_frame)) = Some (VMError ''Revert'')"
    "c_output (set_error (VMError ''Revert'') (with_output [7] new_frame)) = [7]"
    by (simp_all add: with_output_def set_error_def new_frame_def titanoboa_computation_def)
  from native_env_facts [of native_return] r h v c o k0 absent slow show ?thesis by blast
qed

lemma get_sender_env: "fst (snd (get_sender E sender w)) = fst w"
  by (auto simp: get_sender_def split: option.splits prod.splits sum.splits)

lemma deploy_target_override_env:
  "fst (snd (deploy_target G E s (Some ov) w)) = fst w"
  by (auto simp: deploy_target_def split: prod.splits sum.splits)

lemma deploy_target_None:
  "deploy_target G E s None w =
     (Inr (generate_contract_address G s (get_nonce (state (vm (fst w))) s)),
      ((fst w)\<lparr>vm := (vm (fst w))\<lparr>state := increment_nonce s (state (vm (fst w)))\<rparr>\<rparr>, snd w))"
  by (simp add: deploy_target_def Let_def)

lemma get_nonce_increment:
  "get_nonce (increment_nonce s st) a = (if a = s then get_nonce st s + 1 else get_nonce st a)"
  by (simp add: get_nonce_def increment_nonce_def)

lemma hook_children:
  "c_children c \<noteq> [] \<Longrightarrow> hook_trace_computation depth e c = Some RecursionError"
proof (induction depth)
  case 0
  then show ?case by simp
next
  case (Suc depth)
  have stay: "foldl (\<lambda>r child. case r of Some err \<Rightarrow> Some err | None \<Rightarrow> f child) (Some x) xs = Some x"
    for f :: "computation \<Rightarrow> error option" and x xs
    by (induction xs) simp_all
  from Suc obtain ch rest where ch: "c_children c = ch # rest" by (cases "c_children c") auto
  show ?case
    using Suc by (simp add: ch stay Let_def)
qed

lemma hook_no_children:
  "c_children c = [] \<Longrightarrow> hook_trace_computation (Suc depth) e c = None"
  by simp


lemma deploy_code_raises:
  assumes "get_sender E sender w = (Inr s, w1)"
      and "deploy_target G E s override_address w1 = (Inr target, w2)"
      and "\<forall>m t. apply_create_message G w2 m t = (Inr c, w3)"
      and "c_error c = Some err"
  shows "deploy_code G E sender gas val bytecode start_pc override_address w = (Inl err, w3)"
  using assms by (simp add: deploy_code_def Let_def)

lemma deploy_code_returns:
  assumes "get_sender E sender w = (Inr s, w1)"
      and "deploy_target G E s override_address w1 = (Inr target, w2)"
      and "\<forall>m t. apply_create_message G w2 m t = (Inr c, w3)"
      and "c_error c = None"
  shows "deploy_code G E sender gas val bytecode start_pc override_address w
           = (Inr (target, c_output c), w3)"
  using assms by (simp add: deploy_code_def Let_def)

lemma execute_code_returns:
  assumes "get_sender E sender w = (Inr s, w1)"
      and "Address_new E to_address (snd w1) = (Inr r, g2)"
      and "\<forall>m t. apply_message G (fst w1, g2) m t = (Inr ret, w3)"
      and "\<not> coverage_enabled (fst w3)"
  shows "execute_code G E depth to_address sender gas val data override_bytecode is_modifying
           start_pc fake w = (Inr ret, w3)"
  using assms by (simp add: execute_code_def Let_def)

text \<open>
  C2. \<^verbatim>\<open>deploy_code\<close> raises the engine's error when the frame of the creation has
  one (\<open>deploy_code_raises\<close>), and \<^verbatim>\<open>execute_code\<close> returns the frame of the call,
  failure flag included, when coverage is not enabled (\<open>execute_code_returns\<close>). With
  coverage enabled, \<^verbatim>\<open>execute_code\<close> hands the frame to
  \<^verbatim>\<open>_hook_trace_computation\<close>, which for a frame with a child calls itself on the
  same frame again and again: whatever the stack depth available, Python's
  RecursionError leaves \<^verbatim>\<open>execute_code\<close>, and the failed call's result is not
  returned.
\<close>

theorem execute_code_coverage_recursion:
  assumes "get_sender E sender w = (Inr s, w1)"
      and "Address_new E to_address (snd w1) = (Inr r, g2)"
      and "\<forall>m t. apply_message G (fst w1, g2) m t = (Inr ret, w3)"
      and "is_error ret"
      and "coverage_enabled (fst w3)"
      and "c_children ret \<noteq> []"
  shows "execute_code G E depth to_address sender gas val data override_bytecode is_modifying
           start_pc fake w = (Inl RecursionError, w3)"
  using assms by (simp add: execute_code_def Let_def hook_children)

lemma example_get_sender:
  "get_sender example_codec None coverage_world = (Inr CONSOLE_ADDRESS, coverage_world)"
  by (simp add: get_sender_def coverage_world_def example_env_def Address_new_def deref_def
      globals_one_address_def)

lemma example_to_address:
  "Address_new example_codec (Obj 0) (snd coverage_world) = (Inr 0, snd coverage_world)"
  by (simp add: Address_new_def)

theorem execute_code_coverage_recursion_witness:
  "get_sender example_codec None coverage_world = (Inr CONSOLE_ADDRESS, coverage_world) \<and>
   Address_new example_codec (Obj 0) (snd coverage_world) = (Inr 0, snd coverage_world) \<and>
   (\<forall>m t. apply_message (constant_engine reverted_frame) coverage_world m t
            = (Inr reverted_frame, coverage_world)) \<and>
   is_error reverted_frame \<and>
   coverage_enabled (fst coverage_world) \<and>
   c_children reverted_frame \<noteq> [] \<and>
   execute_code (constant_engine reverted_frame) example_codec 1000 (Obj 0) None None 0 []
       None True 0 None coverage_world = (Inl RecursionError, coverage_world)"
proof -
  have am: "\<forall>m t. apply_message (constant_engine reverted_frame) (fst coverage_world, snd coverage_world) m t
            = (Inr reverted_frame, coverage_world)"
    by (simp add: constant_engine_def)
  have er: "is_error reverted_frame"
    by (simp add: is_error_def reverted_frame_def)
  have cov: "coverage_enabled (fst coverage_world)"
    by (simp add: coverage_world_def)
  have ch: "c_children reverted_frame \<noteq> []"
    by (simp add: reverted_frame_def)
  show ?thesis
    using am er cov ch example_get_sender example_to_address
      execute_code_coverage_recursion [OF example_get_sender example_to_address am er cov ch,
        where depth = 1000 and gas = None and val = 0 and data = "[]"
          and override_bytecode = None and is_modifying = True and start_pc = 0 and fake = None]
    by simp
qed

lemma deploy_code_world:
  assumes "get_sender E sender w = (Inr s, w1)"
      and "deploy_target G E s ov w1 = (Inr target, w2)"
  shows "snd (deploy_code G E sender gas val bytecode start_pc ov w) =
           snd (apply_create_message G w2
                  (create_message s
                     (case gas of
                        None \<Rightarrow> x_gas_limit (execution_context (state (vm (fst w))))
                      | Some k \<Rightarrow> VInt k)
                     val bytecode target)
                  \<lparr>origin = s, tx_gas_price = get_gas_price (fst w2)\<rparr>)"
  using assms
  by (simp add: deploy_code_def Let_def split: prod.splits sum.splits option.splits)

text \<open>
  C10. With an override address, \<^verbatim>\<open>deploy_code\<close> itself neither reads nor increments
  the sender's nonce: the target address is computed without touching the
  environment, and the creation is submitted to the engine on the caller's state as it
  was. The sender's nonce after the call is therefore what the engine's creation of
  that message leaves: unchanged whenever the creation leaves it, which the engine
  does not when the override address is the sender's own (it increments the nonce of
  the account it creates). Without an override address the nonce is read for the
  derivation of the target and incremented before the creation is submitted.
\<close>

theorem deploy_code_nonce:
  assumes "get_sender E sender w = (Inr s, w1)"
  shows "fst (snd (deploy_target G E s (Some ov) w1)) = fst w \<and>
         (deploy_target G E s (Some ov) w1 = (Inr target, w2) \<longrightarrow>
            snd (deploy_code G E sender gas val bytecode start_pc (Some ov) w) =
              snd (apply_create_message G w2
                     (create_message s
                        (case gas of
                           None \<Rightarrow> x_gas_limit (execution_context (state (vm (fst w))))
                         | Some k \<Rightarrow> VInt k)
                        val bytecode target)
                     \<lparr>origin = s, tx_gas_price = get_gas_price (fst w)\<rparr>)) \<and>
         (deploy_target G E s (Some ov) w1 = (Inr target, w2) \<and>
          get_nonce (state (vm (fst (snd (apply_create_message G w2
                     (create_message s
                        (case gas of
                           None \<Rightarrow> x_gas_limit (execution_context (state (vm (fst w))))
                         | Some k \<Rightarrow> VInt k)
                        val bytecode target)
                     \<lparr>origin = s, tx_gas_price = get_gas_price (fst w)\<rparr>))))) s
            = get_nonce (state (vm (fst w2))) s \<longrightarrow>
            get_nonce (state (vm (fst (snd
              (deploy_code G E sender gas val bytecode start_pc (Some ov) w))))) s
              = get_nonce (state (vm (fst w))) s) \<and>
         (deploy_target G E s (Some ov) w1 = (Inl err, w2) \<longrightarrow>
            deploy_code G E sender gas val bytecode start_pc (Some ov) w = (Inl err, w2) \<and>
            fst w2 = fst w) \<and>
         snd (deploy_code G E sender gas val bytecode start_pc None w) =
           snd (apply_create_message G
                  ((fst w)\<lparr>vm := (vm (fst w))\<lparr>state := increment_nonce s (state (vm (fst w)))\<rparr>\<rparr>,
                   snd w1)
                  (create_message s
                     (case gas of
                        None \<Rightarrow> x_gas_limit (execution_context (state (vm (fst w))))
                      | Some k \<Rightarrow> VInt k)
                     val bytecode
                     (generate_contract_address G s (get_nonce (state (vm (fst w))) s)))
                  \<lparr>origin = s, tx_gas_price = get_gas_price (fst w)\<rparr>) \<and>
         get_nonce (increment_nonce s (state (vm (fst w)))) s = get_nonce (state (vm (fst w))) s + 1"
proof -
  from get_sender_env [of E sender w] assms have e1: "fst w1 = fst w" by simp
  have A: "fst (snd (deploy_target G E s (Some ov) w1)) = fst w"
    using deploy_target_override_env [of G E s ov w1] e1 by simp
  have e2: "fst w2 = fst w" if "deploy_target G E s (Some ov) w1 = (x, w2)" for x
    using A that by simp
  have B: "deploy_target G E s (Some ov) w1 = (Inr target, w2) \<longrightarrow>
            snd (deploy_code G E sender gas val bytecode start_pc (Some ov) w) =
              snd (apply_create_message G w2
                     (create_message s
                        (case gas of
                           None \<Rightarrow> x_gas_limit (execution_context (state (vm (fst w))))
                         | Some k \<Rightarrow> VInt k)
                        val bytecode target)
                     \<lparr>origin = s, tx_gas_price = get_gas_price (fst w)\<rparr>)"
  proof
    assume dt: "deploy_target G E s (Some ov) w1 = (Inr target, w2)"
    from deploy_code_world [OF assms dt, of gas val bytecode start_pc] e2 [OF dt]
    show "snd (deploy_code G E sender gas val bytecode start_pc (Some ov) w) =
              snd (apply_create_message G w2
                     (create_message s
                        (case gas of
                           None \<Rightarrow> x_gas_limit (execution_context (state (vm (fst w))))
                         | Some k \<Rightarrow> VInt k)
                        val bytecode target)
                     \<lparr>origin = s, tx_gas_price = get_gas_price (fst w)\<rparr>)"
      by simp
  qed
  have C: "deploy_target G E s (Some ov) w1 = (Inr target, w2) \<and>
          get_nonce (state (vm (fst (snd (apply_create_message G w2
                     (create_message s
                        (case gas of
                           None \<Rightarrow> x_gas_limit (execution_context (state (vm (fst w))))
                         | Some k \<Rightarrow> VInt k)
                        val bytecode target)
                     \<lparr>origin = s, tx_gas_price = get_gas_price (fst w)\<rparr>))))) s
            = get_nonce (state (vm (fst w2))) s \<longrightarrow>
            get_nonce (state (vm (fst (snd
              (deploy_code G E sender gas val bytecode start_pc (Some ov) w))))) s
              = get_nonce (state (vm (fst w))) s"
    using B e2 by auto
  have D: "deploy_target G E s (Some ov) w1 = (Inl err, w2) \<longrightarrow>
            deploy_code G E sender gas val bytecode start_pc (Some ov) w = (Inl err, w2) \<and>
            fst w2 = fst w"
    using assms e2 by (auto simp: deploy_code_def Let_def)
  have dn: "deploy_target G E s None w1 =
     (Inr (generate_contract_address G s (get_nonce (state (vm (fst w))) s)),
      ((fst w)\<lparr>vm := (vm (fst w))\<lparr>state := increment_nonce s (state (vm (fst w)))\<rparr>\<rparr>, snd w1))"
    by (simp add: deploy_target_None e1)
  have F: "snd (deploy_code G E sender gas val bytecode start_pc None w) =
           snd (apply_create_message G
                  ((fst w)\<lparr>vm := (vm (fst w))\<lparr>state := increment_nonce s (state (vm (fst w)))\<rparr>\<rparr>,
                   snd w1)
                  (create_message s
                     (case gas of
                        None \<Rightarrow> x_gas_limit (execution_context (state (vm (fst w))))
                      | Some k \<Rightarrow> VInt k)
                     val bytecode
                     (generate_contract_address G s (get_nonce (state (vm (fst w))) s)))
                  \<lparr>origin = s, tx_gas_price = get_gas_price (fst w)\<rparr>)"
    using deploy_code_world [OF assms dn, of gas val bytecode start_pc]
    by (simp add: get_gas_price_def)
  have N: "get_nonce (increment_nonce s (state (vm (fst w)))) s = get_nonce (state (vm (fst w))) s + 1"
    by (simp add: get_nonce_increment)
  from A B C D F N show ?thesis by blast
qed


lemma example_world_sender:
  "get_sender example_codec None example_world = (Inr CONSOLE_ADDRESS, example_world)"
  by (simp add: get_sender_def example_world_def example_env_def Address_new_def deref_def
      globals_one_address_def)

lemma example_nonce_before:
  "get_nonce (state (vm (fst example_world))) a = 0"
  by (simp add: get_nonce_def example_world_def example_env_def genesis_state_def)

lemma override_sender_target:
  "deploy_target creating_engine example_codec CONSOLE_ADDRESS (Some (Obj 0)) example_world
     = (Inr CONSOLE_ADDRESS, example_world)"
  by (simp add: deploy_target_def Address_new_def deref_def example_world_def
      globals_one_address_def)

text \<open>The sender's nonce does move under an override address when that address is
  the sender's own: the engine increments the nonce of the account it creates.\<close>

theorem deploy_code_override_sender_nonce_moves:
  "get_sender example_codec None example_world = (Inr CONSOLE_ADDRESS, example_world) \<and>
   get_nonce (state (vm (fst example_world))) CONSOLE_ADDRESS = 0 \<and>
   get_nonce (state (vm (fst (snd
     (deploy_code creating_engine example_codec None None 0 [] 0 (Some (Obj 0))
        example_world))))) CONSOLE_ADDRESS = 1"
proof -
  have "snd (deploy_code creating_engine example_codec None None 0 [] 0 (Some (Obj 0)) example_world)
      = snd (apply_create_message creating_engine example_world
               (create_message CONSOLE_ADDRESS
                  (x_gas_limit (execution_context (state (vm (fst example_world))))) 0 []
                  CONSOLE_ADDRESS)
               \<lparr>origin = CONSOLE_ADDRESS, tx_gas_price = get_gas_price (fst example_world)\<rparr>)"
    using deploy_code_world [OF example_world_sender override_sender_target,
        where gas = None and val = 0 and bytecode = "[]" and start_pc = 0]
    by simp
  then have "get_nonce (state (vm (fst (snd
     (deploy_code creating_engine example_codec None None 0 [] 0 (Some (Obj 0))
        example_world))))) CONSOLE_ADDRESS = 1"
    by (simp add: creating_engine_def create_message_def storage_address_def Let_def
        get_nonce_increment example_nonce_before)
  with example_world_sender example_nonce_before show ?thesis by simp
qed

lemma override_other_target:
  "deploy_target creating_engine example_codec CONSOLE_ADDRESS (Some (Raw (RBytes OTHER_ADDRESS)))
     example_world = (Inr OTHER_ADDRESS, world_other_address)"
  by (simp add: deploy_target_def Address_new_def deref_def example_world_def
      globals_one_address_def lru_getitem_def lru_setitem_def example_codec_def Let_def
      world_other_address_def OTHER_ADDRESS_def CONSOLE_ADDRESS_def hex_byte_def lower_def
      lower_char_def)

theorem deploy_code_nonce_witness:
  "get_sender example_codec None example_world = (Inr CONSOLE_ADDRESS, example_world) \<and>
   deploy_target creating_engine example_codec CONSOLE_ADDRESS (Some (Raw (RBytes OTHER_ADDRESS)))
     example_world = (Inr OTHER_ADDRESS, world_other_address) \<and>
   get_nonce (state (vm (fst example_world))) CONSOLE_ADDRESS = 0 \<and>
   get_nonce (state (vm (fst (snd
     (deploy_code creating_engine example_codec None None 0 [] 0
        (Some (Raw (RBytes OTHER_ADDRESS))) example_world))))) CONSOLE_ADDRESS = 0 \<and>
   get_nonce (state (vm (fst (snd
     (deploy_code creating_engine example_codec None None 0 [] 0
        (Some (Raw (RBytes OTHER_ADDRESS))) example_world))))) OTHER_ADDRESS = 1 \<and>
   get_nonce (state (vm (fst (snd
     (deploy_code creating_engine example_codec None None 0 [] 0 None
        example_world))))) CONSOLE_ADDRESS = 1 \<and>
   deploy_target creating_engine example_codec CONSOLE_ADDRESS (Some (Raw (RStr ''zz'')))
     example_world = (Inl (ValueError ''not an address''), example_world) \<and>
   deploy_code creating_engine example_codec None None 0 [] 0 (Some (Raw (RStr ''zz'')))
     example_world = (Inl (ValueError ''not an address''), example_world)"
proof -
  have bad: "deploy_target creating_engine example_codec CONSOLE_ADDRESS (Some (Raw (RStr ''zz'')))
     example_world = (Inl (ValueError ''not an address''), example_world)"
    by (simp add: deploy_target_def Address_new_def example_world_def globals_one_address_def
        lru_getitem_def example_codec_def)
  have refused: "deploy_code creating_engine example_codec None None 0 [] 0
     (Some (Raw (RStr ''zz''))) example_world
       = (Inl (ValueError ''not an address''), example_world)"
    using bad deploy_code_nonce [OF example_world_sender, where G = creating_engine
      and ov = "Raw (RStr ''zz'')" and ?w2.0 = example_world and gas = None and val = 0
      and bytecode = "[]" and start_pc = 0 and err = "ValueError ''not an address''"]
    by simp
  note T = deploy_code_nonce [OF example_world_sender, where G = creating_engine
      and ov = "Raw (RBytes OTHER_ADDRESS)" and target = OTHER_ADDRESS
      and ?w2.0 = world_other_address and gas = None and val = 0 and bytecode = "[]"
      and start_pc = 0 and err = "ValueError []"]
  have ne: "OTHER_ADDRESS \<noteq> CONSOLE_ADDRESS"
    by (simp add: OTHER_ADDRESS_def CONSOLE_ADDRESS_def)
  have env2: "fst world_other_address = fst example_world"
    by (simp add: world_other_address_def example_world_def)
  have sa: "storage_address (create_message CONSOLE_ADDRESS g 0 [] a) = a" for g a
    by (simp add: storage_address_def create_message_def)
  have gen: "generate_contract_address creating_engine CONSOLE_ADDRESS 0 \<noteq> CONSOLE_ADDRESS"
    by (simp add: creating_engine_def CONSOLE_ADDRESS_def)
  have w: "snd (deploy_code creating_engine example_codec None None 0 [] 0
        (Some (Raw (RBytes OTHER_ADDRESS))) example_world) =
      snd (apply_create_message creating_engine world_other_address
             (create_message CONSOLE_ADDRESS
                (x_gas_limit (execution_context (state (vm (fst example_world))))) 0 []
                OTHER_ADDRESS)
             \<lparr>origin = CONSOLE_ADDRESS, tx_gas_price = get_gas_price (fst example_world)\<rparr>)"
    using T override_other_target by simp
  have n0: "get_nonce (state (vm (fst (snd
     (deploy_code creating_engine example_codec None None 0 [] 0
        (Some (Raw (RBytes OTHER_ADDRESS))) example_world))))) CONSOLE_ADDRESS = 0"
    unfolding w using ne
    by (simp add: creating_engine_def sa Let_def get_nonce_increment env2 example_nonce_before)
  have n1: "get_nonce (state (vm (fst (snd
     (deploy_code creating_engine example_codec None None 0 [] 0
        (Some (Raw (RBytes OTHER_ADDRESS))) example_world))))) OTHER_ADDRESS = 1"
    unfolding w
    by (simp add: creating_engine_def sa Let_def get_nonce_increment env2 example_nonce_before)
  have wn: "snd (deploy_code creating_engine example_codec None None 0 [] 0 None example_world) =
      snd (apply_create_message creating_engine
             ((fst example_world)\<lparr>vm := (vm (fst example_world))
                 \<lparr>state := increment_nonce CONSOLE_ADDRESS (state (vm (fst example_world)))\<rparr>\<rparr>,
              snd example_world)
             (create_message CONSOLE_ADDRESS
                (x_gas_limit (execution_context (state (vm (fst example_world))))) 0 []
                (generate_contract_address creating_engine CONSOLE_ADDRESS
                   (get_nonce (state (vm (fst example_world))) CONSOLE_ADDRESS)))
             \<lparr>origin = CONSOLE_ADDRESS, tx_gas_price = get_gas_price (fst example_world)\<rparr>)"
    using T by simp
  have n2: "get_nonce (state (vm (fst (snd
     (deploy_code creating_engine example_codec None None 0 [] 0 None
        example_world))))) CONSOLE_ADDRESS = 1"
    unfolding wn using gen
    by (simp add: sa example_nonce_before get_nonce_increment Let_def
        creating_engine_def)
  from example_world_sender override_other_target example_nonce_before n0 n1 n2 bad refused
  show ?thesis by simp
qed
end
